theory Spec2Isabelle
  imports Main "HOL-Library.Sublist" "HOL-Library.AList"
begin

section \<open>Strings of the Go runtime\<close>

text \<open>
  A Go string is a sequence of bytes; \<^typ>\<open>string\<close> is a list of 8-bit characters.
  \<open>strings.ToLower\<close> and \<open>strings.EqualFold\<close> have an ASCII path, which is modelled
  in full, and a path through the Unicode case tables for any string that holds a byte
  of value 128 or more. The Unicode tables are not part of the repository: they are taken
  as the two fields of a parameter of type \<open>Unicode\<close>, and every theorem below holds for
  every choice of them.
\<close>

record Unicode =
  mapToLower :: "string \<Rightarrow> string"
  foldRunes :: "string \<Rightarrow> string \<Rightarrow> bool"

definition isASCII :: "string \<Rightarrow> bool" where
  "isASCII s = list_all (\<lambda>c. (of_char c :: nat) < 128) s"

definition toLowerASCII :: "char \<Rightarrow> char" where
  "toLowerASCII c =
     (if (65 :: nat) \<le> of_char c \<and> (of_char c :: nat) \<le> 90
      then char_of ((of_char c :: nat) + 32) else c)"

definition ToLower :: "Unicode \<Rightarrow> string \<Rightarrow> string" where
  "ToLower U s = (if isASCII s then map toLowerASCII s else mapToLower U s)"

definition EqualFold :: "Unicode \<Rightarrow> string \<Rightarrow> string \<Rightarrow> bool" where
  "EqualFold U s t =
     (if isASCII s \<and> isASCII t then map toLowerASCII s = map toLowerASCII t
      else foldRunes U s t)"

text \<open>The identity tables: enough for every ASCII input, used to run examples.\<close>

definition asciiOnly :: Unicode where
  "asciiOnly = \<lparr>mapToLower = (\<lambda>s. s), foldRunes = (\<lambda>s t. s = t)\<rparr>"

section \<open>Failures\<close>

text \<open>
  A Go function of the package either returns an \<open>error\<close> value or panics. Both are
  values of the model: \<open>Error e\<close> is the returned error, \<open>Panic p\<close> the runtime panic.
  Errors built by the package carry the data their message is formatted from; errors of
  the object store and of the converter are opaque values handed through.
\<close>

datatype error =
    UnsupportedKind string
  | UnsupportedShape "string list" string
  | AccessorError "string list"
  | SetFieldError "string list"
  | External string

datatype panic = NilPointerDereference | TypeAssertionFailed | SliceBoundsOutOfRange

datatype failure = Error error | Panic panic

section \<open>The environment sources of a container\<close>

record LocalObjectReference =
  Name :: string

record ConfigMapEnvSource = LocalObjectReference +
  configMapOptional :: "bool option"

record SecretEnvSource = LocalObjectReference +
  Optional :: "bool option"

text \<open>The two references of \<open>corev1.EnvFromSource\<close> are pointers: \<open>None\<close> is \<open>nil\<close>.\<close>

record EnvFromSource =
  Prefix :: string
  ConfigMapRef :: "ConfigMapEnvSource option"
  SecretRef :: "SecretEnvSource option"

text \<open>
  The literal that \<open>appendEnvFrom\<close> appends: only \<open>SecretRef\<close> is set, and in it only
  the name.
\<close>

definition secretEnvFrom :: "string \<Rightarrow> EnvFromSource" where
  "secretEnvFrom secret =
     \<lparr>Prefix = [], ConfigMapRef = None,
      SecretRef = Some \<lparr>Name = secret, Optional = None\<rparr>\<rparr>"

text \<open>
  \<open>appendEnvFrom\<close>: the \<open>range\<close> loop reads \<open>env.SecretRef.Name\<close> of each entry in
  turn, with no test of the pointer, and returns the list it was given at the first entry
  whose name is the secret; after the loop the new entry is appended. The first argument
  of the loop is the whole list, the second what is left to scan.
\<close>

fun appendEnvFrom_scan ::
  "EnvFromSource list \<Rightarrow> EnvFromSource list \<Rightarrow> string \<Rightarrow> failure + EnvFromSource list" where
  "appendEnvFrom_scan envList [] secret = Inr (envList @ [secretEnvFrom secret])"
| "appendEnvFrom_scan envList (env # rest) secret =
     (case SecretRef env of
        None \<Rightarrow> Inl (Panic NilPointerDereference)
      | Some ref \<Rightarrow>
          if Name ref = secret then Inr envList
          else appendEnvFrom_scan envList rest secret)"

definition appendEnvFrom :: "EnvFromSource list \<Rightarrow> string \<Rightarrow> failure + EnvFromSource list" where
  "appendEnvFrom envList secret = appendEnvFrom_scan envList envList secret"

text \<open>Entries used in the examples: one that refers to a config map only, one to a secret.\<close>

definition configMapOnly :: "string \<Rightarrow> EnvFromSource" where
  "configMapOnly n =
     \<lparr>Prefix = [], ConfigMapRef = Some \<lparr>Name = n, configMapOptional = None\<rparr>,
      SecretRef = None\<rparr>"

section \<open>Dynamically typed objects\<close>

text \<open>
  The content of an \<open>unstructured.Unstructured\<close> is a \<open>map[string]interface{}\<close> of
  JSON values. A map is an association list read with \<^const>\<open>map_of\<close> and written with
  \<^const>\<open>AList.update\<close>, so a key has one value. Numbers are integers here; no function
  of the package computes with them.
\<close>

datatype json =
    JNull
  | JBool bool
  | JNumber int
  | JString string
  | JArray "json list"
  | JObject "(string \<times> json) list"

type_synonym unstructured = "(string \<times> json) list"

text \<open>
  The accessors of \<open>k8s.io/apimachinery/pkg/apis/meta/v1/unstructured\<close>, which return
  a value, \<open>found\<close> and an error: a missing key gives \<open>found = false\<close> with no error
  (\<open>Inr None\<close>), a value on the way that is not a map (\<open>null\<close> included) gives an
  error, and so does a last value that is not a slice. The second argument of the loop is
  the part of the path already walked, which the error reports.
\<close>

fun NestedFieldNoCopy_loop :: "json \<Rightarrow> string list \<Rightarrow> string list \<Rightarrow> error + json option" where
  "NestedFieldNoCopy_loop val seen [] = Inr (Some val)"
| "NestedFieldNoCopy_loop val seen (field # flds) =
     (case val of
        JObject m \<Rightarrow>
          (case map_of m field of
             None \<Rightarrow> Inr None
           | Some v \<Rightarrow> NestedFieldNoCopy_loop v (seen @ [field]) flds)
      | _ \<Rightarrow> Inl (AccessorError (seen @ [field])))"

definition NestedFieldNoCopy :: "unstructured \<Rightarrow> string list \<Rightarrow> error + json option" where
  "NestedFieldNoCopy obj flds = NestedFieldNoCopy_loop (JObject obj) [] flds"

definition NestedSlice :: "unstructured \<Rightarrow> string list \<Rightarrow> error + json list option" where
  "NestedSlice obj flds =
     (case NestedFieldNoCopy obj flds of
        Inl err \<Rightarrow> Inl err
      | Inr None \<Rightarrow> Inr None
      | Inr (Some val) \<Rightarrow>
          (case val of
             JArray xs \<Rightarrow> Inr (Some xs)
           | _ \<Rightarrow> Inl (AccessorError flds)))"

fun setNestedFieldNoCopy ::
  "unstructured \<Rightarrow> json \<Rightarrow> string list \<Rightarrow> string list \<Rightarrow> failure + unstructured" where
  "setNestedFieldNoCopy m val seen [] = Inl (Panic SliceBoundsOutOfRange)"
| "setNestedFieldNoCopy m val seen [field] = Inr (AList.update field val m)"
| "setNestedFieldNoCopy m val seen (field # flds) =
     (case map_of m field of
        Some (JObject valMap) \<Rightarrow>
          (case setNestedFieldNoCopy valMap val (seen @ [field]) flds of
             Inl f \<Rightarrow> Inl f
           | Inr valMap' \<Rightarrow> Inr (AList.update field (JObject valMap') m))
      | Some _ \<Rightarrow> Inl (Error (SetFieldError (seen @ [field])))
      | None \<Rightarrow>
          (case setNestedFieldNoCopy [] val (seen @ [field]) flds of
             Inl f \<Rightarrow> Inl f
           | Inr newVal \<Rightarrow> Inr (AList.update field (JObject newVal) m)))"

definition SetNestedSlice :: "unstructured \<Rightarrow> json list \<Rightarrow> string list \<Rightarrow> failure + unstructured" where
  "SetNestedSlice obj val flds = setNestedFieldNoCopy obj (JArray val) [] flds"

text \<open>\<open>GetKind\<close> of an object: the string at \<open>kind\<close>, or the empty string.\<close>

definition GetKind :: "unstructured \<Rightarrow> string" where
  "GetKind obj = (case map_of obj ''kind'' of Some (JString s) \<Rightarrow> s | _ \<Rightarrow> [])"

section \<open>The request and the object store of the Binder\<close>

record GroupVersionKind =
  Group :: string
  Version :: string
  Kind :: string

record BackingSelector =
  ResourceName :: string
  ResourceVersion :: string

record ApplicationSelector =
  ResourceKind :: string
  MatchLabels :: "(string \<times> string) list"

record ServiceBindingRequestSpec =
  backingSelector :: BackingSelector
  applicationSelector :: ApplicationSelector

text \<open>
  The request type is declared in \<open>pkg/apis/apps/v1alpha1\<close>; the fields are those the
  Binder and the tests read. \<open>metaName\<close> and \<open>metaNamespace\<close> are the name and the
  namespace of its object metadata, read through \<open>GetName\<close> and \<open>GetNamespace\<close>.
\<close>

record ServiceBindingRequest =
  metaName :: string
  metaNamespace :: string
  Spec :: ServiceBindingRequestSpec

definition GetName :: "ServiceBindingRequest \<Rightarrow> string" where
  "GetName r = metaName r"

definition GetNamespace :: "ServiceBindingRequest \<Rightarrow> string" where
  "GetNamespace r = metaNamespace r"

record ListOptions =
  optNamespace :: string
  LabelSelector :: "(string \<times> string) list"

text \<open>
  \<open>client.Client\<close> is an interface onto the external object store. The store is a state
  of any type \<open>'st\<close>; \<open>List\<close> reads it, \<open>Update\<close> returns its error (\<open>None\<close> is \<open>nil\<close>)
  and the state it leaves, which an implementation is free to change even when it fails.
\<close>

record 'st Client =
  clientList :: "'st \<Rightarrow> ListOptions \<Rightarrow> GroupVersionKind \<Rightarrow> error + unstructured list"
  clientUpdate :: "'st \<Rightarrow> unstructured \<Rightarrow> error option \<times> 'st"

record 'st Binder =
  client :: "'st Client"
  sbr :: ServiceBindingRequest

text \<open>
  A \<open>corev1.Container\<close> is a record whose field \<open>EnvFrom\<close> the Binder reads and writes;
  its other fields are the extension of the record scheme. The conversion between a
  container and its dynamically typed form is \<open>runtime.DefaultUnstructuredConverter\<close> of
  the Kubernetes library, taken as a parameter.
\<close>

record Container =
  EnvFrom :: "EnvFromSource list"

record 'c UnstructuredConverter =
  FromUnstructured :: "unstructured \<Rightarrow> error + 'c Container_scheme"
  ToUnstructured :: "'c Container_scheme \<Rightarrow> error + unstructured"

section \<open>The Binder\<close>

definition getResourceKind :: "Unicode \<Rightarrow> 'st Binder \<Rightarrow> string" where
  "getResourceKind U b = ToLower U (ResourceKind (applicationSelector (Spec (sbr b))))"

definition getListGVK :: "Unicode \<Rightarrow> 'st Binder \<Rightarrow> error + GroupVersionKind" where
  "getListGVK U b =
     (let kind = getResourceKind U b in
      if kind = ''deploymentconfig'' then
        Inr \<lparr>Group = ''apps.openshift.io'', Version = ''v1'', Kind = ''DeploymentConfigList''\<rparr>
      else if kind = ''deployment'' then
        Inr \<lparr>Group = ''apps'', Version = ''v1'', Kind = ''DeploymentList''\<rparr>
      else Inl (UnsupportedKind kind))"

definition search :: "Unicode \<Rightarrow> 'st Binder \<Rightarrow> 'st \<Rightarrow> error + unstructured list" where
  "search U b st =
     (let ns = GetNamespace (sbr b);
          matchLabels = MatchLabels (applicationSelector (Spec (sbr b)))
      in case getListGVK U b of
           Inl err \<Rightarrow> Inl err
         | Inr gvk \<Rightarrow>
             clientList (client b) st \<lparr>optNamespace = ns, LabelSelector = matchLabels\<rparr> gvk)"

definition nestedPath :: "string list" where
  "nestedPath = [''spec'', ''template'', ''spec'', ''containers'']"

text \<open>
  The inner loop of \<open>update\<close>, over the containers of one object: type assertion,
  conversion to a container, \<open>appendEnvFrom\<close> with the name of the request, conversion
  back, and the assignment \<open>containers[i] = bindContainer\<close>.
\<close>

fun update_containers ::
  "'c UnstructuredConverter \<Rightarrow> 'st Binder \<Rightarrow> json list \<Rightarrow> failure + json list" where
  "update_containers cv b [] = Inr []"
| "update_containers cv b (container # rest) =
     (case container of
        JObject u \<Rightarrow>
          (case FromUnstructured cv u of
             Inl err \<Rightarrow> Inl (Error err)
           | Inr c \<Rightarrow>
               (case appendEnvFrom (EnvFrom c) (GetName (sbr b)) of
                  Inl f \<Rightarrow> Inl f
                | Inr envList \<Rightarrow>
                    (case ToUnstructured cv (c\<lparr>EnvFrom := envList\<rparr>) of
                       Inl err \<Rightarrow> Inl (Error err)
                     | Inr bindContainer \<Rightarrow>
                         (case update_containers cv b rest of
                            Inl f \<Rightarrow> Inl f
                          | Inr rest' \<Rightarrow> Inr (JObject bindContainer # rest')))))
      | _ \<Rightarrow> Inl (Panic TypeAssertionFailed))"

text \<open>
  The body of the outer loop, for one object: the result is the error of \<open>update\<close> if the
  body returns one (\<open>None\<close>: the loop goes on) and the state of the store.
\<close>

definition update_object ::
  "'c UnstructuredConverter \<Rightarrow> 'st Binder \<Rightarrow> 'st \<Rightarrow> unstructured \<Rightarrow> failure option \<times> 'st" where
  "update_object cv b st obj =
     (case NestedSlice obj nestedPath of
        Inl err \<Rightarrow> (Some (Error err), st)
      | Inr None \<Rightarrow> (Some (Error (UnsupportedShape nestedPath (GetKind obj))), st)
      | Inr (Some containers) \<Rightarrow>
          (case update_containers cv b containers of
             Inl f \<Rightarrow> (Some f, st)
           | Inr containers' \<Rightarrow>
               (case SetNestedSlice obj containers' nestedPath of
                  Inl f \<Rightarrow> (Some f, st)
                | Inr obj' \<Rightarrow>
                    (case clientUpdate (client b) st obj' of
                       (Some err, st') \<Rightarrow> (Some (Error err), st')
                     | (None, st') \<Rightarrow> (None, st')))))"

fun update ::
  "'c UnstructuredConverter \<Rightarrow> 'st Binder \<Rightarrow> 'st \<Rightarrow> unstructured list \<Rightarrow> failure option \<times> 'st" where
  "update cv b st [] = (None, st)"
| "update cv b st (obj # objs) =
     (case update_object cv b st obj of
        (Some f, st') \<Rightarrow> (Some f, st')
      | (None, st') \<Rightarrow> update cv b st' objs)"

definition Bind ::
  "Unicode \<Rightarrow> 'c UnstructuredConverter \<Rightarrow> 'st Binder \<Rightarrow> 'st \<Rightarrow> failure option \<times> 'st" where
  "Bind U cv b st =
     (case search U b st of
        Inl err \<Rightarrow> (Some (Error err), st)
      | Inr objList \<Rightarrow> update cv b st objList)"

section \<open>Operator Lifecycle Manager resources\<close>

record GroupVersionResource =
  gvrGroup :: string
  gvrVersion :: string
  gvrResource :: string

record GroupResource =
  grGroup :: string
  grResource :: string

record NamespacedName =
  nnNamespace :: string
  nnName :: string

text \<open>
  \<open>dynamic.Interface\<close>, as far as the package uses it: \<open>List\<close> and \<open>Get\<close> on the
  resource client of a group, version and resource in a namespace. The content of the
  store is the client value itself, since the package only reads through it.
\<close>

record DynamicClient =
  resourceList :: "GroupVersionResource \<Rightarrow> string \<Rightarrow> error + unstructured list"
  resourceGet :: "GroupVersionResource \<Rightarrow> string \<Rightarrow> string \<Rightarrow> error + unstructured"

record OLM =
  dynClient :: DynamicClient
  ns :: string

definition csvResource :: string where
  "csvResource = ''clusterserviceversions''"

text \<open>\<open>olmv1alpha1.SchemeGroupVersion.WithResource(csvResource)\<close>.\<close>

definition csvGVR :: GroupVersionResource where
  "csvGVR = \<lparr>gvrGroup = ''operators.coreos.com'', gvrVersion = ''v1alpha1'',
             gvrResource = csvResource\<rparr>"

text \<open>
  \<open>olmv1alpha1.CRDDescription\<close>: the fields the package reads are \<open>Name\<close>, \<open>Version\<close>
  and \<open>Kind\<close>; the descriptor lists are the extension of the record scheme. The
  conversion from the dynamically typed form is again the library converter, a parameter
  \<open>conv\<close> of every function that converts.
\<close>

record CRDDescription =
  crdName :: string
  crdVersion :: string
  crdKind :: string
  crdDisplayName :: string
  crdDescription :: string

definition listCSVs :: "OLM \<Rightarrow> error + unstructured list" where
  "listCSVs olm = resourceList (dynClient olm) csvGVR (ns olm)"

definition ownedPath :: "string list" where
  "ownedPath = [''spec'', ''customresourcedefinitions'', ''owned'']"

text \<open>
  \<open>extractOwnedCRDs\<close>: the inner loop asserts that each owned entry is a map and appends
  it to \<open>crds\<close>; the outer loop skips a CSV without the path and returns the error of a
  path that is not well typed.
\<close>

fun extractOwnedCRDs_owned :: "unstructured list \<Rightarrow> json list \<Rightarrow> failure + unstructured list" where
  "extractOwnedCRDs_owned crds [] = Inr crds"
| "extractOwnedCRDs_owned crds (crd # rest) =
     (case crd of
        JObject data \<Rightarrow> extractOwnedCRDs_owned (crds @ [data]) rest
      | _ \<Rightarrow> Inl (Panic TypeAssertionFailed))"

fun extractOwnedCRDs_csvs :: "unstructured list \<Rightarrow> unstructured list \<Rightarrow> failure + unstructured list" where
  "extractOwnedCRDs_csvs crds [] = Inr crds"
| "extractOwnedCRDs_csvs crds (csv # csvs) =
     (case NestedSlice csv ownedPath of
        Inl err \<Rightarrow> Inl (Error err)
      | Inr None \<Rightarrow> extractOwnedCRDs_csvs crds csvs
      | Inr (Some ownedCRDs) \<Rightarrow>
          (case extractOwnedCRDs_owned crds ownedCRDs of
             Inl f \<Rightarrow> Inl f
           | Inr crds' \<Rightarrow> extractOwnedCRDs_csvs crds' csvs))"

definition extractOwnedCRDs :: "unstructured list \<Rightarrow> failure + unstructured list" where
  "extractOwnedCRDs csvs = extractOwnedCRDs_csvs [] csvs"

definition ListCSVOwnedCRDs :: "OLM \<Rightarrow> failure + unstructured list" where
  "ListCSVOwnedCRDs olm =
     (case listCSVs olm of
        Inl err \<Rightarrow> Inl (Error err)
      | Inr csvs \<Rightarrow> extractOwnedCRDs csvs)"

text \<open>
  \<open>loopCRDDescritions\<close> converts each object and calls \<open>fn\<close> on the description. The
  callbacks of the package append to a slice they capture: \<open>fn\<close> takes that slice and
  returns it updated.
\<close>

fun loopCRDDescritions ::
  "(unstructured \<Rightarrow> error + 'd) \<Rightarrow> unstructured list \<Rightarrow> ('d \<Rightarrow> 'a \<Rightarrow> 'a) \<Rightarrow> 'a \<Rightarrow> error + 'a" where
  "loopCRDDescritions conv [] fn acc = Inr acc"
| "loopCRDDescritions conv (u # ownedCRDs) fn acc =
     (case conv u of
        Inl err \<Rightarrow> Inl err
      | Inr description \<Rightarrow> loopCRDDescritions conv ownedCRDs fn (fn description acc))"

text \<open>The callback of \<open>SelectCRDByGVK\<close>: two early returns, then the append.\<close>

definition selectFn ::
  "Unicode \<Rightarrow> GroupVersionKind \<Rightarrow> 'd CRDDescription_scheme \<Rightarrow>
   'd CRDDescription_scheme list \<Rightarrow> 'd CRDDescription_scheme list" where
  "selectFn U gvk crd crdDescriptions =
     (if \<not> EqualFold U (ToLower U (crdKind crd)) (ToLower U (Kind gvk)) then crdDescriptions
      else if crdVersion crd \<noteq> [] \<and> ToLower U (Version gvk) \<noteq> ToLower U (crdVersion crd)
        then crdDescriptions
      else crdDescriptions @ [crd])"

definition SelectCRDByGVK ::
  "Unicode \<Rightarrow> (unstructured \<Rightarrow> error + 'd CRDDescription_scheme) \<Rightarrow> OLM \<Rightarrow> GroupVersionKind \<Rightarrow>
   failure + 'd CRDDescription_scheme option" where
  "SelectCRDByGVK U conv olm gvk =
     (case ListCSVOwnedCRDs olm of
        Inl f \<Rightarrow> Inl f
      | Inr ownedCRDs \<Rightarrow>
          (case loopCRDDescritions conv ownedCRDs (selectFn U gvk) [] of
             Inl err \<Rightarrow> Inl (Error err)
           | Inr crdDescriptions \<Rightarrow>
               if length crdDescriptions = 0 then Inr None
               else Inr (Some (crdDescriptions ! 0))))"

text \<open>
  \<open>schema.ParseResourceArg\<close> of the Kubernetes library: the group and resource are split
  at the first dot; the first result is set when the argument has two dots or more.
\<close>

definition beforeDot :: "string \<Rightarrow> string" where
  "beforeDot s = takeWhile (\<lambda>c. c \<noteq> CHR ''.'') s"

definition afterDot :: "string \<Rightarrow> string option" where
  "afterDot s = (case dropWhile (\<lambda>c. c \<noteq> CHR ''.'') s of [] \<Rightarrow> None | _ # t \<Rightarrow> Some t)"

definition ParseGroupResource :: "string \<Rightarrow> GroupResource" where
  "ParseGroupResource gr =
     (case afterDot gr of
        Some g \<Rightarrow> \<lparr>grGroup = g, grResource = beforeDot gr\<rparr>
      | None \<Rightarrow> \<lparr>grGroup = [], grResource = gr\<rparr>)"

definition ParseResourceArg :: "string \<Rightarrow> GroupVersionResource option \<times> GroupResource" where
  "ParseResourceArg arg =
     ((case afterDot arg of
         None \<Rightarrow> None
       | Some t \<Rightarrow>
           (case afterDot t of
              None \<Rightarrow> None
            | Some g \<Rightarrow> Some \<lparr>gvrGroup = g, gvrVersion = beforeDot t, gvrResource = beforeDot arg\<rparr>)),
      ParseGroupResource arg)"

definition gvkFn ::
  "'d CRDDescription_scheme \<Rightarrow> GroupVersionKind list \<Rightarrow> GroupVersionKind list" where
  "gvkFn crd gvks =
     (let gv = snd (ParseResourceArg (crdName crd))
      in gvks @ [\<lparr>Group = grGroup gv, Version = crdVersion crd, Kind = crdKind crd\<rparr>])"

definition extractGVKs ::
  "(unstructured \<Rightarrow> error + 'd CRDDescription_scheme) \<Rightarrow> unstructured list \<Rightarrow>
   error + GroupVersionKind list" where
  "extractGVKs conv crdDescriptions = loopCRDDescritions conv crdDescriptions gvkFn []"

definition ListCSVOwnedCRDsAsGVKs ::
  "(unstructured \<Rightarrow> error + 'd CRDDescription_scheme) \<Rightarrow> OLM \<Rightarrow> error + GroupVersionKind list" where
  "ListCSVOwnedCRDsAsGVKs conv olm =
     (case listCSVs olm of
        Inl err \<Rightarrow> Inl err
      | Inr csvs \<Rightarrow> extractGVKs conv csvs)"

definition ListGVKsFromCSVNamespacedName ::
  "(unstructured \<Rightarrow> error + 'd CRDDescription_scheme) \<Rightarrow> OLM \<Rightarrow> NamespacedName \<Rightarrow>
   error + GroupVersionKind list" where
  "ListGVKsFromCSVNamespacedName conv olm namespacedName =
     (case resourceGet (dynClient olm) csvGVR (nnNamespace namespacedName) (nnName namespacedName) of
        Inl err \<Rightarrow> Inl err
      | Inr u \<Rightarrow> (let csvs = [u] in extractGVKs conv csvs))"

section \<open>The resolver as the specification words it\<close>

text \<open>
  The specification of \<open>selectByGVK\<close>: the descriptors of the namespace, flattened in
  listing order, filtered by case-insensitive equality of the kind and, for a descriptor
  with a version, of the version; the first match wins. The specification does not say
  which comparison is meant: the one of kinds is \<open>EqualFold\<close> of the lower-cased
  strings, the one of versions is equality of the lower-cased strings. On ASCII strings
  both are equality after mapping \<open>A\<close> to \<open>Z\<close> onto \<open>a\<close> to \<open>z\<close>.
\<close>

definition equalFoldLower :: "Unicode \<Rightarrow> string \<Rightarrow> string \<Rightarrow> bool" where
  "equalFoldLower U a b = EqualFold U (ToLower U a) (ToLower U b)"

definition equalLower :: "Unicode \<Rightarrow> string \<Rightarrow> string \<Rightarrow> bool" where
  "equalLower U a b = (ToLower U a = ToLower U b)"

definition descriptorMatches :: "Unicode \<Rightarrow> GroupVersionKind \<Rightarrow> 'd CRDDescription_scheme \<Rightarrow> bool" where
  "descriptorMatches U gvk d =
     (equalFoldLower U (crdKind d) (Kind gvk)
      \<and> (crdVersion d \<noteq> [] \<longrightarrow> equalLower U (crdVersion d) (Version gvk)))"

definition ownedDescriptors :: "unstructured \<Rightarrow> unstructured list" where
  "ownedDescriptors csv =
     (case NestedSlice csv ownedPath of
        Inr (Some owned) \<Rightarrow> concat (map (\<lambda>crd. case crd of JObject data \<Rightarrow> [data] | _ \<Rightarrow> []) owned)
      | _ \<Rightarrow> [])"

fun convertAll :: "(unstructured \<Rightarrow> error + 'd) \<Rightarrow> unstructured list \<Rightarrow> error + 'd list" where
  "convertAll conv [] = Inr []"
| "convertAll conv (u # us) =
     (case conv u of
        Inl err \<Rightarrow> Inl err
      | Inr d \<Rightarrow> (case convertAll conv us of Inl err \<Rightarrow> Inl err | Inr ds \<Rightarrow> Inr (d # ds)))"

text \<open>
  The specification of \<open>listGVKsForPackagingObject\<close>: fetch the one packaging object,
  extract its owned descriptors, and map each to a group, version and kind.
\<close>

definition listGVKsForPackagingObject_spec ::
  "(unstructured \<Rightarrow> error + 'd CRDDescription_scheme) \<Rightarrow> OLM \<Rightarrow> NamespacedName \<Rightarrow>
   failure + GroupVersionKind list" where
  "listGVKsForPackagingObject_spec conv olm namespacedName =
     (case resourceGet (dynClient olm) csvGVR (nnNamespace namespacedName) (nnName namespacedName) of
        Inl err \<Rightarrow> Inl (Error err)
      | Inr u \<Rightarrow>
          (case convertAll conv (ownedDescriptors u) of
             Inl err \<Rightarrow> Inl (Error err)
           | Inr ds \<Rightarrow>
               Inr (map (\<lambda>d. \<lparr>Group = grGroup (ParseGroupResource (crdName d)),
                                Version = crdVersion d, Kind = crdKind d\<rparr>) ds)))"

text \<open>
  What \<open>update\<close> may write in place of a container, for a given secret name: the
  conversion back of the converted container, with its \<open>EnvFrom\<close> either as it was or
  with the one entry \<open>secretEnvFrom secret\<close> appended.
\<close>

definition bindsSecret :: "'c UnstructuredConverter \<Rightarrow> string \<Rightarrow> json \<Rightarrow> json \<Rightarrow> bool" where
  "bindsSecret cv secret container bound =
     (case container of
        JObject u \<Rightarrow>
          (case FromUnstructured cv u of
             Inl err \<Rightarrow> False
           | Inr c \<Rightarrow>
               map_sum id JObject (ToUnstructured cv c) = Inr bound
               \<or> map_sum id JObject
                    (ToUnstructured cv (c\<lparr>EnvFrom := EnvFrom c @ [secretEnvFrom secret]\<rparr>))
                  = Inr bound)
      | _ \<Rightarrow> False)"

text \<open>
  What \<open>update\<close> may hand to the store in place of an object, for a given secret name:
  the object with, at the path of its containers, a list that holds for each container
  what \<open>bindsSecret\<close> allows, in the same order.
\<close>

definition bindsObject :: "'c UnstructuredConverter \<Rightarrow> string \<Rightarrow> unstructured \<Rightarrow> unstructured \<Rightarrow> bool" where
  "bindsObject cv secret obj obj' =
     (case NestedSlice obj nestedPath of
        Inr (Some containers) \<Rightarrow>
          (case NestedSlice obj' nestedPath of
             Inr (Some containers') \<Rightarrow>
               list_all2 (bindsSecret cv secret) containers containers'
               \<and> SetNestedSlice obj containers' nestedPath = Inr obj'
           | _ \<Rightarrow> False)
      | _ \<Rightarrow> False)"

section \<open>Objects and stores of the tests\<close>

text \<open>
  A converter to run examples with. It follows the library converter on the string fields
  of a description: a missing or null field is the empty string, a string is taken, any
  other value is an error. The descriptor lists are not converted.
\<close>

definition stringField :: "unstructured \<Rightarrow> string \<Rightarrow> error + string" where
  "stringField u k =
     (case map_of u k of
        None \<Rightarrow> Inr []
      | Some JNull \<Rightarrow> Inr []
      | Some (JString v) \<Rightarrow> Inr v
      | Some _ \<Rightarrow> Inl (External (''cannot convert '' @ k)))"

definition crdFromUnstructured :: "unstructured \<Rightarrow> error + CRDDescription" where
  "crdFromUnstructured u =
     (case stringField u ''name'' of Inl err \<Rightarrow> Inl err | Inr n \<Rightarrow>
     (case stringField u ''version'' of Inl err \<Rightarrow> Inl err | Inr v \<Rightarrow>
     (case stringField u ''kind'' of Inl err \<Rightarrow> Inl err | Inr k \<Rightarrow>
     (case stringField u ''displayName'' of Inl err \<Rightarrow> Inl err | Inr dn \<Rightarrow>
     (case stringField u ''description'' of Inl err \<Rightarrow> Inl err | Inr ds \<Rightarrow>
        Inr \<lparr>crdName = n, crdVersion = v, crdKind = k, crdDisplayName = dn,
             crdDescription = ds\<rparr>)))))"

text \<open>The packaging object of the end-to-end test, with its one owned descriptor.\<close>

definition e2eOwned :: unstructured where
  "e2eOwned =
     [(''name'', JString ''databases.postgresql.baiju.dev''),
      (''displayName'', JString ''Database''),
      (''description'', JString ''e2e csv based on postgresql-operator''),
      (''kind'', JString ''Database''),
      (''version'', JString ''v1alpha1'')]"

definition e2eCSV :: unstructured where
  "e2eCSV =
     [(''kind'', JString ''ClusterServiceVersion''),
      (''apiVersion'', JString ''operators.coreos.com/v1alpha1''),
      (''metadata'', JObject [(''name'', JString ''e2e-cluster-service-version''),
                             (''namespace'', JString ''e2e'')]),
      (''spec'', JObject [(''displayName'', JString ''e2e database csv''),
                         (''customresourcedefinitions'', JObject [(''owned'', JArray [JObject e2eOwned])])])]"

text \<open>
  A store that holds the given packaging objects: \<open>List\<close> returns those of the
  namespace, in order, and \<open>Get\<close> the first of the namespace with the name.
\<close>

definition inNamespace :: "string \<Rightarrow> unstructured \<Rightarrow> bool" where
  "inNamespace n u = (NestedFieldNoCopy u [''metadata'', ''namespace''] = Inr (Some (JString n)))"

definition named :: "string \<Rightarrow> unstructured \<Rightarrow> bool" where
  "named name u = (NestedFieldNoCopy u [''metadata'', ''name''] = Inr (Some (JString name)))"

definition holding :: "unstructured list \<Rightarrow> OLM" where
  "holding csvs =
     \<lparr>dynClient =
        \<lparr>resourceList = (\<lambda>gvr n. Inr (filter (inNamespace n) csvs)),
         resourceGet = (\<lambda>gvr n name.
            case find (\<lambda>u. inNamespace n u \<and> named name u) csvs of
              None \<Rightarrow> Inl (External ''not found'')
            | Some u \<Rightarrow> Inr u)\<rparr>,
      ns = ''e2e''\<rparr>"

text \<open>A second packaging object, whose descriptor declares no version.\<close>

definition otherCSV :: unstructured where
  "otherCSV =
     [(''kind'', JString ''ClusterServiceVersion''),
      (''metadata'', JObject [(''name'', JString ''other''), (''namespace'', JString ''e2e'')]),
      (''spec'', JObject [(''customresourcedefinitions'',
         JObject [(''owned'', JArray [JObject [(''name'', JString ''dbs.example.org''),
                                               (''kind'', JString ''database'')]])])])]"

text \<open>
  A container converter to run examples with, for containers with a name, an image and
  \<open>envFrom\<close> entries; it follows the library converter on these fields (a missing
  field is the zero value, an empty field is left out of the output).
\<close>

record NamedContainer = Container +
  containerName :: string
  Image :: string

definition refField :: "unstructured \<Rightarrow> string \<Rightarrow> error + string option" where
  "refField m k =
     (case map_of m k of
        None \<Rightarrow> Inr None
      | Some JNull \<Rightarrow> Inr None
      | Some (JObject r) \<Rightarrow>
          (case stringField r ''name'' of Inl err \<Rightarrow> Inl err | Inr n \<Rightarrow> Inr (Some n))
      | Some _ \<Rightarrow> Inl (External (''cannot convert '' @ k)))"

definition envFromOfJson :: "json \<Rightarrow> error + EnvFromSource" where
  "envFromOfJson j =
     (case j of
        JObject m \<Rightarrow>
          (case stringField m ''prefix'' of Inl err \<Rightarrow> Inl err | Inr p \<Rightarrow>
          (case refField m ''configMapRef'' of Inl err \<Rightarrow> Inl err | Inr c \<Rightarrow>
          (case refField m ''secretRef'' of Inl err \<Rightarrow> Inl err | Inr r \<Rightarrow>
             Inr \<lparr>Prefix = p,
                  ConfigMapRef = map_option (\<lambda>n. \<lparr>Name = n, configMapOptional = None\<rparr>) c,
                  SecretRef = map_option (\<lambda>n. \<lparr>Name = n, Optional = None\<rparr>) r\<rparr>)))
      | _ \<Rightarrow> Inl (External ''cannot convert envFrom''))"

fun envFromListOfJson :: "json list \<Rightarrow> error + EnvFromSource list" where
  "envFromListOfJson [] = Inr []"
| "envFromListOfJson (j # js) =
     (case envFromOfJson j of
        Inl err \<Rightarrow> Inl err
      | Inr e \<Rightarrow> (case envFromListOfJson js of Inl err \<Rightarrow> Inl err | Inr es \<Rightarrow> Inr (e # es)))"

definition containerFromUnstructured :: "unstructured \<Rightarrow> error + NamedContainer" where
  "containerFromUnstructured u =
     (case stringField u ''name'' of Inl err \<Rightarrow> Inl err | Inr n \<Rightarrow>
     (case stringField u ''image'' of Inl err \<Rightarrow> Inl err | Inr i \<Rightarrow>
     (case (case map_of u ''envFrom'' of
              None \<Rightarrow> Inr []
            | Some JNull \<Rightarrow> Inr []
            | Some (JArray js) \<Rightarrow> envFromListOfJson js
            | Some _ \<Rightarrow> Inl (External ''cannot convert envFrom'')) of
        Inl err \<Rightarrow> Inl err
      | Inr es \<Rightarrow> Inr \<lparr>EnvFrom = es, containerName = n, Image = i\<rparr>)))"

definition nameEntry :: "string \<Rightarrow> (string \<times> json) list" where
  "nameEntry n = (if n = [] then [] else [(''name'', JString n)])"

definition envFromToJson :: "EnvFromSource \<Rightarrow> json" where
  "envFromToJson e =
     JObject
       ((if Prefix e = [] then [] else [(''prefix'', JString (Prefix e))])
        @ (case ConfigMapRef e of
             None \<Rightarrow> []
           | Some r \<Rightarrow> [(''configMapRef'', JObject (nameEntry (Name r)))])
        @ (case SecretRef e of
             None \<Rightarrow> []
           | Some r \<Rightarrow> [(''secretRef'', JObject (nameEntry (Name r)))]))"

definition containerToUnstructured :: "NamedContainer \<Rightarrow> error + unstructured" where
  "containerToUnstructured c =
     Inr ([(''name'', JString (containerName c))]
          @ (if Image c = [] then [] else [(''image'', JString (Image c))])
          @ (if EnvFrom c = [] then [] else [(''envFrom'', JArray (map envFromToJson (EnvFrom c)))])
          @ [(''resources'', JObject [])])"

definition typedConverter :: "unit NamedContainer_ext UnstructuredConverter" where
  "typedConverter =
     \<lparr>FromUnstructured = containerFromUnstructured, ToUnstructured = containerToUnstructured\<rparr>"

text \<open>
  A store that records the objects handed to \<open>Update\<close>, in order, and rejects an object
  of the given kind; \<open>List\<close> returns the given items.
\<close>

definition recording :: "unstructured list \<Rightarrow> string \<Rightarrow> unstructured list Client" where
  "recording items rejected =
     \<lparr>clientList = (\<lambda>st opts gvk. Inr items),
      clientUpdate = (\<lambda>st obj. if GetKind obj = rejected then (Some (External ''conflict''), st)
                                else (None, st @ [obj]))\<rparr>"

definition request :: "string \<Rightarrow> string \<Rightarrow> ServiceBindingRequest" where
  "request name kind =
     \<lparr>metaName = name, metaNamespace = ''e2e'',
      Spec = \<lparr>backingSelector = \<lparr>ResourceName = ''databases.postgresql.baiju.dev'',
                                  ResourceVersion = ''v1alpha1''\<rparr>,
              applicationSelector = \<lparr>ResourceKind = kind,
                                      MatchLabels = [(''connects-to'', ''database'')]\<rparr>\<rparr>\<rparr>"

definition workload :: "string \<Rightarrow> json list \<Rightarrow> unstructured" where
  "workload kind containers =
     [(''kind'', JString kind),
      (''spec'', JObject [(''template'', JObject [(''spec'', JObject [(''containers'', JArray containers)])])])]"

definition plainContainer :: json where
  "plainContainer = JObject [(''name'', JString ''app''), (''image'', JString ''busybox'')]"

definition boundContainer :: "string \<Rightarrow> json" where
  "boundContainer secret =
     JObject [(''name'', JString ''app''), (''image'', JString ''busybox''),
              (''envFrom'', JArray [JObject [(''secretRef'', JObject (nameEntry secret))]]),
              (''resources'', JObject [])]"

text \<open>A workload of a kind whose containers are not under the path of \<open>update\<close>.\<close>

definition shapeless :: unstructured where
  "shapeless = [(''kind'', JString ''CronJob''), (''spec'', JObject [(''schedule'', JString ''@daily'')])]"

section \<open>Properties of appendEnvFrom\<close>

lemma appendEnvFrom_scan_cases:
  "appendEnvFrom_scan whole rest secret = Inl (Panic NilPointerDereference)
     \<and> (\<exists>env \<in> set rest. SecretRef env = None)
   \<or> appendEnvFrom_scan whole rest secret = Inr whole
   \<or> appendEnvFrom_scan whole rest secret = Inr (whole @ [secretEnvFrom secret])"
  by (induction rest) (auto split: option.splits)

lemma appendEnvFrom_scan_total:
  "\<forall>env \<in> set rest. SecretRef env \<noteq> None \<Longrightarrow>
   appendEnvFrom_scan whole rest secret = Inr whole
   \<or> appendEnvFrom_scan whole rest secret = Inr (whole @ [secretEnvFrom secret])"
  using appendEnvFrom_scan_cases [of whole rest secret] by auto

lemma appendEnvFrom_result:
  "appendEnvFrom envList secret = Inr out \<Longrightarrow>
   out = envList \<or> out = envList @ [secretEnvFrom secret]"
  using appendEnvFrom_scan_cases [of envList envList secret]
  by (auto simp: appendEnvFrom_def)

lemma appendEnvFrom_scan_fresh:
  "\<forall>env \<in> set pre. \<forall>ref. SecretRef env = Some ref \<longrightarrow> Name ref \<noteq> secret \<Longrightarrow>
   SecretRef bad = None \<Longrightarrow>
   appendEnvFrom_scan whole (pre @ bad # post) secret = Inl (Panic NilPointerDereference)"
  by (induction pre) (auto split: option.splits)

lemma fresh_secret_name:
  "\<exists>secret. \<forall>env \<in> set (l :: EnvFromSource list). \<forall>ref. SecretRef env = Some ref \<longrightarrow> Name ref \<noteq> secret"
proof -
  let ?used = "(\<lambda>env. case SecretRef env of None \<Rightarrow> [] | Some ref \<Rightarrow> Name ref) ` set l"
  have "finite ?used" by simp
  then obtain secret where fresh: "secret \<notin> ?used"
    using infinite_UNIV_listI ex_new_if_finite by blast
  have "\<forall>env \<in> set l. \<forall>ref. SecretRef env = Some ref \<longrightarrow> Name ref \<noteq> secret"
  proof (intro ballI allI impI)
    fix env ref
    assume "env \<in> set l" and ref: "SecretRef env = Some ref"
    then have "Name ref \<in> ?used" by (force simp: image_iff)
    with fresh show "Name ref \<noteq> secret" by auto
  qed
  then show ?thesis by blast
qed

text \<open>
  Claim C7. Whatever list \<open>appendEnvFrom\<close> returns begins with the entries it was given,
  in their order: on every input the call either stops in the nil dereference of an entry
  without secret reference, or returns the input list itself, or returns the input list
  with the one new entry as its last element.
\<close>

theorem appendEnvFrom_keeps_order:
  "appendEnvFrom envList secret = Inl (Panic NilPointerDereference)
     \<and> (\<exists>env \<in> set envList. SecretRef env = None)
   \<or> appendEnvFrom envList secret = Inr envList
   \<or> appendEnvFrom envList secret = Inr (envList @ [secretEnvFrom secret])
       \<and> prefix envList (envList @ [secretEnvFrom secret])
       \<and> last (envList @ [secretEnvFrom secret]) = secretEnvFrom secret"
  using appendEnvFrom_scan_cases [of envList envList secret]
  by (auto simp: appendEnvFrom_def)

theorem appendEnvFrom_keeps_order_witness:
  "appendEnvFrom [secretEnvFrom ''a'', secretEnvFrom ''b''] ''c''
     = Inr [secretEnvFrom ''a'', secretEnvFrom ''b'', secretEnvFrom ''c'']
   \<and> appendEnvFrom [secretEnvFrom ''a'', secretEnvFrom ''b''] ''b''
     = Inr [secretEnvFrom ''a'', secretEnvFrom ''b'']"
proof -
  have neq: "appendEnvFrom [secretEnvFrom ''a'', secretEnvFrom ''b''] ''c''
      \<noteq> Inr [secretEnvFrom ''a'', secretEnvFrom ''b'']"
    by (simp add: appendEnvFrom_def secretEnvFrom_def)
  have nonil: "\<not> (\<exists>env \<in> set [secretEnvFrom ''a'', secretEnvFrom ''b'']. SecretRef env = None)"
    by (simp add: secretEnvFrom_def)
  have "appendEnvFrom [secretEnvFrom ''a'', secretEnvFrom ''b''] ''c''
     = Inr [secretEnvFrom ''a'', secretEnvFrom ''b'', secretEnvFrom ''c'']"
    using appendEnvFrom_keeps_order [of "[secretEnvFrom ''a'', secretEnvFrom ''b'']" "''c''"]
      neq nonil by auto
  moreover have "appendEnvFrom [secretEnvFrom ''a'', secretEnvFrom ''b''] ''b''
     = Inr [secretEnvFrom ''a'', secretEnvFrom ''b'']"
    by (simp add: appendEnvFrom_def secretEnvFrom_def)
  ultimately show ?thesis by simp
qed

text \<open>
  Claim C9. The scan reads \<open>env.SecretRef.Name\<close> with no nil check. A list is safe for
  every secret name exactly when each of its entries carries a secret reference; and an
  entry without one at the head of the list (a config map entry, for example) stops the
  call in a nil dereference, whatever the secret name and the rest of the list.
\<close>

theorem appendEnvFrom_total_iff:
  "((\<forall>secret. \<exists>out. appendEnvFrom envList secret = Inr out)
      \<longleftrightarrow> (\<forall>env \<in> set envList. SecretRef env \<noteq> None))
   \<and> (SecretRef bad = None \<longrightarrow>
        appendEnvFrom (bad # rest) secret' = Inl (Panic NilPointerDereference))"
proof (intro conjI iffI impI)
  assume safe: "\<forall>secret. \<exists>out. appendEnvFrom envList secret = Inr out"
  show "\<forall>env \<in> set envList. SecretRef env \<noteq> None"
  proof (rule ccontr)
    assume "\<not> (\<forall>env \<in> set envList. SecretRef env \<noteq> None)"
    then obtain bad where "bad \<in> set envList" and nil: "SecretRef bad = None" by blast
    then obtain pre post where split: "envList = pre @ bad # post"
      by (meson split_list)
    obtain secret where
      "\<forall>env \<in> set envList. \<forall>ref. SecretRef env = Some ref \<longrightarrow> Name ref \<noteq> secret"
      using fresh_secret_name by blast
    then have "\<forall>env \<in> set pre. \<forall>ref. SecretRef env = Some ref \<longrightarrow> Name ref \<noteq> secret"
      by (auto simp: split)
    from appendEnvFrom_scan_fresh [OF this nil, of envList post]
    have "appendEnvFrom envList secret = Inl (Panic NilPointerDereference)"
      by (simp add: appendEnvFrom_def split)
    with safe show False by (metis Inl_Inr_False)
  qed
next
  assume "\<forall>env \<in> set envList. SecretRef env \<noteq> None"
  then have "\<exists>out. appendEnvFrom envList secret = Inr out" for secret
    using appendEnvFrom_scan_total [of envList envList secret]
    by (auto simp: appendEnvFrom_def)
  then show "\<forall>secret. \<exists>out. appendEnvFrom envList secret = Inr out" by blast
next
  assume "SecretRef bad = None"
  then show "appendEnvFrom (bad # rest) secret' = Inl (Panic NilPointerDereference)"
    by (simp add: appendEnvFrom_def)
qed

theorem appendEnvFrom_total_iff_witness:
  "(\<forall>secret. \<exists>out. appendEnvFrom [secretEnvFrom ''db''] secret = Inr out)
   \<and> (\<exists>secret. \<forall>out. appendEnvFrom [secretEnvFrom ''db'', configMapOnly ''cfg''] secret \<noteq> Inr out)
   \<and> appendEnvFrom [configMapOnly ''cfg''] ''db'' = Inl (Panic NilPointerDereference)"
proof -
  have ok: "\<forall>env \<in> set [secretEnvFrom ''db'']. SecretRef env \<noteq> None"
    by (simp add: secretEnvFrom_def)
  have bad: "\<not> (\<forall>env \<in> set [secretEnvFrom ''db'', configMapOnly ''cfg'']. SecretRef env \<noteq> None)"
    by (simp add: configMapOnly_def)
  have nil: "SecretRef (configMapOnly ''cfg'') = None"
    by (simp add: configMapOnly_def)
  from appendEnvFrom_total_iff [of "[secretEnvFrom ''db'']"] ok
  have "\<forall>secret. \<exists>out. appendEnvFrom [secretEnvFrom ''db''] secret = Inr out" by blast
  moreover from appendEnvFrom_total_iff [of "[secretEnvFrom ''db'', configMapOnly ''cfg'']"] bad
  have "\<exists>secret. \<forall>out. appendEnvFrom [secretEnvFrom ''db'', configMapOnly ''cfg''] secret \<noteq> Inr out"
    by blast
  moreover from appendEnvFrom_total_iff [of "[]" "configMapOnly ''cfg''" "[]" "''db''"] nil
  have "appendEnvFrom [configMapOnly ''cfg''] ''db'' = Inl (Panic NilPointerDereference)"
    by blast
  ultimately show ?thesis by blast
qed

text \<open>A call that returns a list returns the same list when called again on it.\<close>

lemma appendEnvFrom_scan_again:
  "appendEnvFrom_scan whole rest secret = Inr out \<Longrightarrow>
   appendEnvFrom_scan whole' (rest @ [secretEnvFrom secret]) secret = Inr whole'"
  by (induction rest) (auto simp: secretEnvFrom_def split: option.splits if_splits)

lemma appendEnvFrom_second_call:
  "appendEnvFrom envList secret = Inr out \<Longrightarrow> appendEnvFrom out secret = Inr out"
proof -
  assume first: "appendEnvFrom envList secret = Inr out"
  then have "out = envList \<or> out = envList @ [secretEnvFrom secret]"
    by (rule appendEnvFrom_result)
  then show ?thesis
  proof
    assume "out = envList"
    with first show ?thesis by simp
  next
    assume "out = envList @ [secretEnvFrom secret]"
    with first appendEnvFrom_scan_again [of envList envList secret out out]
    show ?thesis by (simp add: appendEnvFrom_def)
  qed
qed

text \<open>
  Claim C3. The claim holds of every call that returns: a second call with the same name
  returns the list of the first. It fails as stated, for every list: an entry without
  secret reference in front of the entry that names the secret stops the scan in a nil
  dereference, so the list is not returned, although one of its entries names the secret.
\<close>

theorem appendEnvFrom_not_idempotent_on_nil:
  "(\<exists>env \<in> set [configMapOnly ''cfg'', secretEnvFrom ''db'']. SecretRef env = Some \<lparr>Name = ''db'', Optional = None\<rparr>)
   \<and> appendEnvFrom [configMapOnly ''cfg'', secretEnvFrom ''db''] ''db''
       = Inl (Panic NilPointerDereference)"
  by (simp add: appendEnvFrom_def configMapOnly_def secretEnvFrom_def)

section \<open>Properties of the resolver of packaging metadata\<close>

lemma selectFn_cases:
  "selectFn U gvk d acc = (if descriptorMatches U gvk d then acc @ [d] else acc)"
  by (auto simp: selectFn_def descriptorMatches_def equalFoldLower_def equalLower_def)

lemma loopCRDDescritions_select:
  "loopCRDDescritions conv us (selectFn U gvk) acc =
     (case convertAll conv us of
        Inl err \<Rightarrow> Inl err
      | Inr ds \<Rightarrow> Inr (acc @ filter (descriptorMatches U gvk) ds))"
proof (induction us arbitrary: acc)
  case Nil
  show ?case by simp
next
  case (Cons u us)
  show ?case
  proof (cases "conv u")
    case (Inl err)
    then show ?thesis by simp
  next
    case (Inr d)
    then have "loopCRDDescritions conv (u # us) (selectFn U gvk) acc =
        loopCRDDescritions conv us (selectFn U gvk) (selectFn U gvk d acc)"
      by simp
    also have "\<dots> = (case convertAll conv us of
        Inl err \<Rightarrow> Inl err
      | Inr ds \<Rightarrow> Inr (selectFn U gvk d acc @ filter (descriptorMatches U gvk) ds))"
      by (rule Cons.IH)
    finally have run: "loopCRDDescritions conv (u # us) (selectFn U gvk) acc =
        (case convertAll conv us of
           Inl err \<Rightarrow> Inl err
         | Inr ds \<Rightarrow> Inr (selectFn U gvk d acc @ filter (descriptorMatches U gvk) ds))" .
    have step: "selectFn U gvk d acc @ filter (descriptorMatches U gvk) ds
        = acc @ filter (descriptorMatches U gvk) (d # ds)" for ds
      by (simp add: selectFn_cases)
    show ?thesis
      unfolding run using Inr by (simp add: step split: sum.splits)
  qed
qed

lemma find_no_match: "filter P xs = [] \<Longrightarrow> find P xs = None"
  by (induction xs) (auto split: if_splits)

lemma find_first_match: "filter P xs \<noteq> [] \<Longrightarrow> find P xs = Some (filter P xs ! 0)"
  by (induction xs) auto

lemma extractOwnedCRDs_owned_flat:
  "extractOwnedCRDs_owned crds owned = Inr out \<Longrightarrow>
   out = crds @ concat (map (\<lambda>crd. case crd of JObject data \<Rightarrow> [data] | _ \<Rightarrow> []) owned)"
proof (induction owned arbitrary: crds)
  case Nil
  then show ?case by simp
next
  case (Cons crd owned)
  show ?case
  proof (cases crd)
    case (JObject data)
    with Cons.prems have "extractOwnedCRDs_owned (crds @ [data]) owned = Inr out" by simp
    from Cons.IH [OF this] JObject show ?thesis by simp
  qed (use Cons.prems in simp_all)
qed

lemma extractOwnedCRDs_csvs_flat:
  "extractOwnedCRDs_csvs crds csvs = Inr out \<Longrightarrow>
   out = crds @ concat (map ownedDescriptors csvs)"
proof (induction csvs arbitrary: crds)
  case Nil
  then show ?case by simp
next
  case (Cons csv csvs)
  show ?case
  proof (cases "NestedSlice csv ownedPath")
    case (Inl err)
    with Cons.prems show ?thesis by simp
  next
    case (Inr found)
    show ?thesis
    proof (cases found)
      case None
      with Inr Cons.prems have "extractOwnedCRDs_csvs crds csvs = Inr out" by simp
      from Cons.IH [OF this] Inr None show ?thesis
        by (simp add: ownedDescriptors_def)
    next
      case (Some owned)
      with Inr Cons.prems obtain crds' where
        inner: "extractOwnedCRDs_owned crds owned = Inr crds'" and
        outer: "extractOwnedCRDs_csvs crds' csvs = Inr out"
        by (auto split: sum.splits)
      from extractOwnedCRDs_owned_flat [OF inner] Cons.IH [OF outer] Inr Some
      show ?thesis by (simp add: ownedDescriptors_def)
    qed
  qed
qed

text \<open>
  Claim C2. \<open>SelectCRDByGVK\<close> returns the error of the listing or of the first
  conversion that fails; otherwise it returns the first of the converted descriptors, in
  the order of the listing, whose kind equals the requested kind without regard to case
  and whose version, if it declares one, equals the requested version without regard to
  case, and \<open>None\<close> without error when there is none. The descriptors are the owned
  entries of the packaging objects, flattened in listing order.
\<close>

theorem SelectCRDByGVK_first_match:
  "SelectCRDByGVK U conv olm gvk =
     (case ListCSVOwnedCRDs olm of
        Inl f \<Rightarrow> Inl f
      | Inr ownedCRDs \<Rightarrow>
          (case convertAll conv ownedCRDs of
             Inl err \<Rightarrow> Inl (Error err)
           | Inr ds \<Rightarrow> Inr (find (descriptorMatches U gvk) ds)))
   \<and> (\<forall>csvs ownedCRDs. listCSVs olm = Inr csvs \<and> ListCSVOwnedCRDs olm = Inr ownedCRDs \<longrightarrow>
         ownedCRDs = concat (map ownedDescriptors csvs))"
proof (intro conjI allI impI)
  show "SelectCRDByGVK U conv olm gvk =
     (case ListCSVOwnedCRDs olm of
        Inl f \<Rightarrow> Inl f
      | Inr ownedCRDs \<Rightarrow>
          (case convertAll conv ownedCRDs of
             Inl err \<Rightarrow> Inl (Error err)
           | Inr ds \<Rightarrow> Inr (find (descriptorMatches U gvk) ds)))"
    unfolding SelectCRDByGVK_def loopCRDDescritions_select
    by (simp add: find_no_match find_first_match split: sum.splits)
next
  fix csvs ownedCRDs
  assume "listCSVs olm = Inr csvs \<and> ListCSVOwnedCRDs olm = Inr ownedCRDs"
  then have "extractOwnedCRDs_csvs [] csvs = Inr ownedCRDs"
    by (auto simp: ListCSVOwnedCRDs_def extractOwnedCRDs_def)
  from extractOwnedCRDs_csvs_flat [OF this]
  show "ownedCRDs = concat (map ownedDescriptors csvs)" by simp
qed

lemma selectFn_group:
  "Version gvk1 = Version gvk2 \<Longrightarrow> Kind gvk1 = Kind gvk2 \<Longrightarrow> selectFn U gvk1 = selectFn U gvk2"
  by (intro ext) (simp add: selectFn_def)

text \<open>
  Claim C10. Two requests that differ in the group only get the same answer from the same
  store: the group is not read when descriptors are matched.
\<close>

theorem SelectCRDByGVK_ignores_group:
  "Version gvk1 = Version gvk2 \<Longrightarrow> Kind gvk1 = Kind gvk2 \<Longrightarrow>
   SelectCRDByGVK U conv olm gvk1 = SelectCRDByGVK U conv olm gvk2"
proof -
  assume v: "Version gvk1 = Version gvk2" and k: "Kind gvk1 = Kind gvk2"
  show ?thesis
    unfolding SelectCRDByGVK_def selectFn_group [OF v k] by (rule refl)
qed

lemma isASCII_lower: "isASCII s \<Longrightarrow> isASCII (map toLowerASCII s)"
  apply (induction s) apply (auto simp: isASCII_def toLowerASCII_def)
  done

lemma toLowerASCII_idem: "toLowerASCII \<circ> toLowerASCII = toLowerASCII"
  by (rule ext) (auto simp: toLowerASCII_def)

lemma ascii_case_insensitive:
  assumes "isASCII a" and "isASCII b"
  shows "equalFoldLower U a b \<longleftrightarrow> map toLowerASCII a = map toLowerASCII b"
    and "equalLower U a b \<longleftrightarrow> map toLowerASCII a = map toLowerASCII b"
  using assms by (simp_all add: equalFoldLower_def equalLower_def EqualFold_def ToLower_def isASCII_lower toLowerASCII_idem)

lemma inNamespace_examples:
  "inNamespace ''e2e'' e2eCSV" "inNamespace ''e2e'' otherCSV"
  "named ''e2e-cluster-service-version'' e2eCSV"
  by (simp_all add: inNamespace_def named_def NestedFieldNoCopy_def e2eCSV_def otherCSV_def)

lemma holding_list:
  "listCSVs (holding [e2eCSV, otherCSV]) = Inr [e2eCSV, otherCSV]"
  "listCSVs (holding [e2eCSV]) = Inr [e2eCSV]"
  by (simp_all add: listCSVs_def holding_def inNamespace_examples)

lemma holding_get:
  "resourceGet (dynClient (holding [e2eCSV])) gvr ''e2e'' ''e2e-cluster-service-version'' = Inr e2eCSV"
  by (simp add: holding_def inNamespace_examples)

lemma owned_of_e2eCSV: "NestedSlice e2eCSV ownedPath = Inr (Some [JObject e2eOwned])"
  by (simp add: NestedSlice_def NestedFieldNoCopy_def ownedPath_def e2eCSV_def)

lemma owned_of_otherCSV:
  "NestedSlice otherCSV ownedPath =
     Inr (Some [JObject [(''name'', JString ''dbs.example.org''), (''kind'', JString ''database'')]])"
  by (simp add: NestedSlice_def NestedFieldNoCopy_def ownedPath_def otherCSV_def)

lemma owned_of_two:
  "ListCSVOwnedCRDs (holding [e2eCSV, otherCSV]) =
     Inr [e2eOwned, [(''name'', JString ''dbs.example.org''), (''kind'', JString ''database'')]]"
  by (simp add: ListCSVOwnedCRDs_def holding_list extractOwnedCRDs_def
      owned_of_e2eCSV owned_of_otherCSV)

lemma descriptors_of_two:
  "convertAll crdFromUnstructured
     [e2eOwned, [(''name'', JString ''dbs.example.org''), (''kind'', JString ''database'')]] =
   Inr [\<lparr>crdName = ''databases.postgresql.baiju.dev'', crdVersion = ''v1alpha1'',
          crdKind = ''Database'', crdDisplayName = ''Database'',
          crdDescription = ''e2e csv based on postgresql-operator''\<rparr>,
        \<lparr>crdName = ''dbs.example.org'', crdVersion = [], crdKind = ''database'',
          crdDisplayName = [], crdDescription = []\<rparr>]"
  by (simp add: crdFromUnstructured_def stringField_def e2eOwned_def)

lemmas lower_defs = ToLower_def isASCII_def toLowerASCII_def char_of_def bit_Suc_0_iff

lemmas matching_defs = descriptorMatches_def equalFoldLower_def equalLower_def EqualFold_def
  lower_defs

theorem SelectCRDByGVK_first_match_witness:
  "SelectCRDByGVK asciiOnly crdFromUnstructured (holding [e2eCSV, otherCSV])
      \<lparr>Group = ''postgresql.baiju.dev'', Version = ''V1ALPHA1'', Kind = ''DATABASE''\<rparr>
    = Inr (Some \<lparr>crdName = ''databases.postgresql.baiju.dev'', crdVersion = ''v1alpha1'',
          crdKind = ''Database'', crdDisplayName = ''Database'',
          crdDescription = ''e2e csv based on postgresql-operator''\<rparr>)
   \<and> SelectCRDByGVK asciiOnly crdFromUnstructured (holding [e2eCSV, otherCSV])
      \<lparr>Group = ''postgresql.baiju.dev'', Version = ''v2'', Kind = ''Database''\<rparr>
    = Inr (Some \<lparr>crdName = ''dbs.example.org'', crdVersion = [], crdKind = ''database'',
          crdDisplayName = [], crdDescription = []\<rparr>)
   \<and> SelectCRDByGVK asciiOnly crdFromUnstructured (holding [e2eCSV])
      \<lparr>Group = ''postgresql.baiju.dev'', Version = ''v2'', Kind = ''Database''\<rparr>
    = Inr None
   \<and> [e2eOwned, [(''name'', JString ''dbs.example.org''), (''kind'', JString ''database'')]]
    = concat (map ownedDescriptors [e2eCSV, otherCSV])"
proof -
  have lst: "listCSVs (holding [e2eCSV, otherCSV]) = Inr [e2eCSV, otherCSV]"
    by (rule holding_list)
  have one: "ListCSVOwnedCRDs (holding [e2eCSV]) = Inr [e2eOwned]"
    by (simp add: ListCSVOwnedCRDs_def holding_list extractOwnedCRDs_def owned_of_e2eCSV)
  have conv: "convertAll crdFromUnstructured [e2eOwned] =
     Inr [\<lparr>crdName = ''databases.postgresql.baiju.dev'', crdVersion = ''v1alpha1'',
          crdKind = ''Database'', crdDisplayName = ''Database'',
          crdDescription = ''e2e csv based on postgresql-operator''\<rparr>]"
    by (simp add: crdFromUnstructured_def stringField_def e2eOwned_def)
  have a: "SelectCRDByGVK asciiOnly crdFromUnstructured (holding [e2eCSV, otherCSV])
      \<lparr>Group = ''postgresql.baiju.dev'', Version = ''V1ALPHA1'', Kind = ''DATABASE''\<rparr>
    = Inr (Some \<lparr>crdName = ''databases.postgresql.baiju.dev'', crdVersion = ''v1alpha1'',
          crdKind = ''Database'', crdDisplayName = ''Database'',
          crdDescription = ''e2e csv based on postgresql-operator''\<rparr>)"
    using SelectCRDByGVK_first_match [of asciiOnly crdFromUnstructured "holding [e2eCSV, otherCSV]"
        "\<lparr>Group = ''postgresql.baiju.dev'', Version = ''V1ALPHA1'', Kind = ''DATABASE''\<rparr>"]
    by (simp only: owned_of_two descriptors_of_two sum.case) (simp add: matching_defs)
  have b: "SelectCRDByGVK asciiOnly crdFromUnstructured (holding [e2eCSV, otherCSV])
      \<lparr>Group = ''postgresql.baiju.dev'', Version = ''v2'', Kind = ''Database''\<rparr>
    = Inr (Some \<lparr>crdName = ''dbs.example.org'', crdVersion = [], crdKind = ''database'',
          crdDisplayName = [], crdDescription = []\<rparr>)"
    using SelectCRDByGVK_first_match [of asciiOnly crdFromUnstructured "holding [e2eCSV, otherCSV]"
        "\<lparr>Group = ''postgresql.baiju.dev'', Version = ''v2'', Kind = ''Database''\<rparr>"]
    by (simp only: owned_of_two descriptors_of_two sum.case) (simp add: matching_defs)
  have c: "SelectCRDByGVK asciiOnly crdFromUnstructured (holding [e2eCSV])
      \<lparr>Group = ''postgresql.baiju.dev'', Version = ''v2'', Kind = ''Database''\<rparr>
    = Inr None"
    using SelectCRDByGVK_first_match [of asciiOnly crdFromUnstructured "holding [e2eCSV]"
        "\<lparr>Group = ''postgresql.baiju.dev'', Version = ''v2'', Kind = ''Database''\<rparr>"]
    by (simp only: one conv sum.case) (simp add: matching_defs)
  have d: "[e2eOwned, [(''name'', JString ''dbs.example.org''), (''kind'', JString ''database'')]]
    = concat (map ownedDescriptors [e2eCSV, otherCSV])"
    using SelectCRDByGVK_first_match [of asciiOnly crdFromUnstructured "holding [e2eCSV, otherCSV]"
        "\<lparr>Group = ''postgresql.baiju.dev'', Version = ''v2'', Kind = ''Database''\<rparr>"]
      lst owned_of_two
    by blast
  from a b c d show ?thesis by blast
qed

theorem SelectCRDByGVK_ignores_group_witness:
  "SelectCRDByGVK asciiOnly crdFromUnstructured (holding [e2eCSV])
      \<lparr>Group = ''postgresql.baiju.dev'', Version = ''v1alpha1'', Kind = ''Database''\<rparr>
   = SelectCRDByGVK asciiOnly crdFromUnstructured (holding [e2eCSV])
      \<lparr>Group = ''apps.openshift.io'', Version = ''v1alpha1'', Kind = ''Database''\<rparr>"
  using SelectCRDByGVK_ignores_group [of
      "\<lparr>Group = ''postgresql.baiju.dev'', Version = ''v1alpha1'', Kind = ''Database''\<rparr>"
      "\<lparr>Group = ''apps.openshift.io'', Version = ''v1alpha1'', Kind = ''Database''\<rparr>"
      asciiOnly crdFromUnstructured "holding [e2eCSV]"]
  by simp

text \<open>
  Claim C1. \<open>ListGVKsFromCSVNamespacedName\<close> fetches the one packaging object, but hands
  the object itself to \<open>extractGVKs\<close>, which converts what it is given as a description:
  the owned descriptors under \<open>spec.customresourcedefinitions.owned\<close> are never read
  (\<open>SelectCRDByGVK\<close> reads them through \<open>extractOwnedCRDs\<close>). For the packaging object
  of the end-to-end test the result is one entry made of the top-level fields of the
  object, where the specification gives the group, version and kind of the owned
  descriptor.
\<close>

theorem ListGVKsFromCSVNamespacedName_reads_csv_itself:
  "ListGVKsFromCSVNamespacedName crdFromUnstructured (holding [e2eCSV])
      \<lparr>nnNamespace = ''e2e'', nnName = ''e2e-cluster-service-version''\<rparr>
     = Inr [\<lparr>Group = [], Version = [], Kind = ''ClusterServiceVersion''\<rparr>]
   \<and> listGVKsForPackagingObject_spec crdFromUnstructured (holding [e2eCSV])
      \<lparr>nnNamespace = ''e2e'', nnName = ''e2e-cluster-service-version''\<rparr>
     = Inr [\<lparr>Group = ''postgresql.baiju.dev'', Version = ''v1alpha1'', Kind = ''Database''\<rparr>]"
proof
  show "ListGVKsFromCSVNamespacedName crdFromUnstructured (holding [e2eCSV])
      \<lparr>nnNamespace = ''e2e'', nnName = ''e2e-cluster-service-version''\<rparr>
     = Inr [\<lparr>Group = [], Version = [], Kind = ''ClusterServiceVersion''\<rparr>]"
    by (simp add: ListGVKsFromCSVNamespacedName_def holding_get extractGVKs_def)
      (simp add: crdFromUnstructured_def stringField_def e2eCSV_def gvkFn_def ParseResourceArg_def
        ParseGroupResource_def afterDot_def beforeDot_def)
  show "listGVKsForPackagingObject_spec crdFromUnstructured (holding [e2eCSV])
      \<lparr>nnNamespace = ''e2e'', nnName = ''e2e-cluster-service-version''\<rparr>
     = Inr [\<lparr>Group = ''postgresql.baiju.dev'', Version = ''v1alpha1'', Kind = ''Database''\<rparr>]"
    by (simp add: listGVKsForPackagingObject_spec_def holding_get ownedDescriptors_def
        owned_of_e2eCSV)
      (simp add: crdFromUnstructured_def stringField_def e2eOwned_def ParseGroupResource_def
        afterDot_def beforeDot_def)
qed

text \<open>In general the result has exactly one entry, converted from the object fetched.\<close>

lemma ListGVKsFromCSVNamespacedName_one:
  "ListGVKsFromCSVNamespacedName conv olm nn =
     (case resourceGet (dynClient olm) csvGVR (nnNamespace nn) (nnName nn) of
        Inl err \<Rightarrow> Inl err
      | Inr u \<Rightarrow>
          (case conv u of
             Inl err \<Rightarrow> Inl err
           | Inr d \<Rightarrow> Inr [\<lparr>Group = grGroup (ParseGroupResource (crdName d)),
                               Version = crdVersion d, Kind = crdKind d\<rparr>]))"
  by (simp add: ListGVKsFromCSVNamespacedName_def extractGVKs_def gvkFn_def ParseResourceArg_def
      split: sum.splits)

section \<open>Properties of the Binder\<close>

text \<open>
  Claim C6. \<open>getListGVK\<close> lower-cases the resource kind of the request and resolves
  exactly two strings: \<open>deployment\<close> to \<open>apps/v1/DeploymentList\<close> and
  \<open>deploymentconfig\<close> to \<open>apps.openshift.io/v1/DeploymentConfigList\<close>. Any other
  string is the unsupported-kind error, which carries the lower-cased string; no other
  descriptor is ever returned.
\<close>

theorem getListGVK_closed_table:
  "getListGVK U b =
     (if ToLower U (ResourceKind (applicationSelector (Spec (sbr b)))) = ''deployment''
        then Inr \<lparr>Group = ''apps'', Version = ''v1'', Kind = ''DeploymentList''\<rparr>
      else if ToLower U (ResourceKind (applicationSelector (Spec (sbr b)))) = ''deploymentconfig''
        then Inr \<lparr>Group = ''apps.openshift.io'', Version = ''v1'', Kind = ''DeploymentConfigList''\<rparr>
      else Inl (UnsupportedKind (ToLower U (ResourceKind (applicationSelector (Spec (sbr b)))))))
   \<and> (\<forall>gvk. getListGVK U b = Inr gvk \<longrightarrow>
         gvk = \<lparr>Group = ''apps'', Version = ''v1'', Kind = ''DeploymentList''\<rparr>
         \<or> gvk = \<lparr>Group = ''apps.openshift.io'', Version = ''v1'', Kind = ''DeploymentConfigList''\<rparr>)"
  by (auto simp: getListGVK_def getResourceKind_def Let_def)

theorem getListGVK_closed_table_witness:
  "getListGVK asciiOnly \<lparr>client = recording [] [], sbr = request ''r'' ''Deployment''\<rparr>
     = Inr \<lparr>Group = ''apps'', Version = ''v1'', Kind = ''DeploymentList''\<rparr>
   \<and> getListGVK asciiOnly \<lparr>client = recording [] [], sbr = request ''r'' ''DEPLOYMENTCONFIG''\<rparr>
     = Inr \<lparr>Group = ''apps.openshift.io'', Version = ''v1'', Kind = ''DeploymentConfigList''\<rparr>
   \<and> getListGVK asciiOnly \<lparr>client = recording [] [], sbr = request ''r'' ''Deployments''\<rparr>
     = Inl (UnsupportedKind ''deployments'')
   \<and> getListGVK asciiOnly \<lparr>client = recording [] [], sbr = request ''r'' ''''\<rparr>
     = Inl (UnsupportedKind '''')"
proof -
  have a: "getListGVK asciiOnly \<lparr>client = recording [] [], sbr = request ''r'' ''Deployment''\<rparr>
     = Inr \<lparr>Group = ''apps'', Version = ''v1'', Kind = ''DeploymentList''\<rparr>"
    using getListGVK_closed_table [of asciiOnly
        "\<lparr>client = recording [] [], sbr = request ''r'' ''Deployment''\<rparr>"]
    by (simp add: request_def lower_defs)
  have b: "getListGVK asciiOnly \<lparr>client = recording [] [], sbr = request ''r'' ''DEPLOYMENTCONFIG''\<rparr>
     = Inr \<lparr>Group = ''apps.openshift.io'', Version = ''v1'', Kind = ''DeploymentConfigList''\<rparr>"
    using getListGVK_closed_table [of asciiOnly
        "\<lparr>client = recording [] [], sbr = request ''r'' ''DEPLOYMENTCONFIG''\<rparr>"]
    by (simp add: request_def lower_defs)
  have c: "getListGVK asciiOnly \<lparr>client = recording [] [], sbr = request ''r'' ''Deployments''\<rparr>
     = Inl (UnsupportedKind ''deployments'')"
    using getListGVK_closed_table [of asciiOnly
        "\<lparr>client = recording [] [], sbr = request ''r'' ''Deployments''\<rparr>"]
    by (simp add: request_def lower_defs)
  have d: "getListGVK asciiOnly \<lparr>client = recording [] [], sbr = request ''r'' ''''\<rparr>
     = Inl (UnsupportedKind '''')"
    using getListGVK_closed_table [of asciiOnly
        "\<lparr>client = recording [] [], sbr = request ''r'' ''''\<rparr>"]
    by (simp add: request_def lower_defs)
  from a b c d show ?thesis by blast
qed

lemma update_append:
  "update cv b st (pre @ post) =
     (case update cv b st pre of
        (Some f, st') \<Rightarrow> (Some f, st')
      | (None, st') \<Rightarrow> update cv b st' post)"
  by (induction pre arbitrary: st) (auto split: prod.splits option.splits)

lemma update_containers_append:
  "update_containers cv b (pre @ post) =
     (case update_containers cv b pre of
        Inl f \<Rightarrow> Inl f
      | Inr pre' \<Rightarrow>
          (case update_containers cv b post of
             Inl f \<Rightarrow> Inl f
           | Inr post' \<Rightarrow> Inr (pre' @ post')))"
  by (induction pre) (auto split: json.splits sum.splits)

lemma update_first_failure:
  "update cv b st pre = (None, st1) \<Longrightarrow> update_object cv b st1 obj = (Some f, st2) \<Longrightarrow>
   update cv b st (pre @ obj # rest) = (Some f, st2)"
  by (simp add: update_append)

lemma update_object_path_error:
  "NestedSlice obj nestedPath = Inl err \<Longrightarrow> update_object cv b st obj = (Some (Error err), st)"
  by (simp add: update_object_def)

lemma update_object_container_failure:
  "NestedSlice obj nestedPath = Inr (Some containers) \<Longrightarrow>
   update_containers cv b containers = Inl f \<Longrightarrow>
   update_object cv b st obj = (Some f, st)"
  by (simp add: update_object_def)

lemma update_object_store_error:
  "NestedSlice obj nestedPath = Inr (Some containers) \<Longrightarrow>
   update_containers cv b containers = Inr containers' \<Longrightarrow>
   SetNestedSlice obj containers' nestedPath = Inr obj' \<Longrightarrow>
   clientUpdate (client b) st obj' = (Some err, st') \<Longrightarrow>
   update_object cv b st obj = (Some (Error err), st')"
  by (simp add: update_object_def)

lemma update_object_stored:
  "NestedSlice obj nestedPath = Inr (Some containers) \<Longrightarrow>
   update_containers cv b containers = Inr containers' \<Longrightarrow>
   SetNestedSlice obj containers' nestedPath = Inr obj' \<Longrightarrow>
   clientUpdate (client b) st obj' = (None, st') \<Longrightarrow>
   update_object cv b st obj = (None, st')"
  by (simp add: update_object_def)

lemma update_containers_from_error:
  "update_containers cv b pre = Inr pre' \<Longrightarrow> FromUnstructured cv u = Inl err \<Longrightarrow>
   update_containers cv b (pre @ JObject u # cs) = Inl (Error err)"
  by (simp add: update_containers_append)

lemma update_containers_to_error:
  "update_containers cv b pre = Inr pre' \<Longrightarrow> FromUnstructured cv u = Inr c \<Longrightarrow>
   appendEnvFrom (EnvFrom c) (GetName (sbr b)) = Inr envList \<Longrightarrow>
   ToUnstructured cv (c\<lparr>EnvFrom := envList\<rparr>) = Inl err \<Longrightarrow>
   update_containers cv b (pre @ JObject u # cs) = Inl (Error err)"
  by (simp add: update_containers_append)

lemma Bind_search_error:
  "search U b st = Inl err \<Longrightarrow> Bind U cv b st = (Some (Error err), st)"
  by (simp add: Bind_def)

lemma search_kind_error:
  "getListGVK U b = Inl err \<Longrightarrow> search U b st = Inl err"
  by (simp add: search_def)

text \<open>
  Claim C5. A pass stops at the first object whose loop body fails: the failure of that
  object is the result, the objects after it are not looked at, and the store is left as
  the updates of the objects before it (and the failing call, if it was the store update)
  left it: nothing is undone. Within one object the error of the path lookup, of either
  conversion of any container, and of the store update is returned as it is; and \<open>Bind\<close>
  returns the error of the search as it is, without running \<open>update\<close>.
\<close>

theorem update_stops_at_first_error:
  "(update cv b st pre = (None, st1) \<and> update_object cv b st1 obj = (Some f, st2)
      \<longrightarrow> update cv b st (pre @ obj # rest) = (Some f, st2))
   \<and> (NestedSlice obj nestedPath = Inl err
      \<longrightarrow> update_object cv b st obj = (Some (Error err), st))
   \<and> (NestedSlice obj nestedPath = Inr (Some containers)
        \<and> update_containers cv b containers = Inl f
      \<longrightarrow> update_object cv b st obj = (Some f, st))
   \<and> (update_containers cv b cs = Inr cs' \<and> FromUnstructured cv u = Inl err
      \<longrightarrow> update_containers cv b (cs @ JObject u # cs'') = Inl (Error err))
   \<and> (update_containers cv b cs = Inr cs' \<and> FromUnstructured cv u = Inr c
        \<and> appendEnvFrom (EnvFrom c) (GetName (sbr b)) = Inr envList
        \<and> ToUnstructured cv (c\<lparr>EnvFrom := envList\<rparr>) = Inl err
      \<longrightarrow> update_containers cv b (cs @ JObject u # cs'') = Inl (Error err))
   \<and> (NestedSlice obj nestedPath = Inr (Some containers)
        \<and> update_containers cv b containers = Inr containers'
        \<and> SetNestedSlice obj containers' nestedPath = Inr obj'
        \<and> clientUpdate (client b) st obj' = (Some err, st')
      \<longrightarrow> update_object cv b st obj = (Some (Error err), st'))
   \<and> (search U b st = Inl err \<longrightarrow> Bind U cv b st = (Some (Error err), st))
   \<and> (search U b st = Inr objList \<longrightarrow> Bind U cv b st = update cv b st objList)"
proof (intro conjI impI; (elim conjE)?)
  show "update cv b st (pre @ obj # rest) = (Some f, st2)"
    if "update cv b st pre = (None, st1)" "update_object cv b st1 obj = (Some f, st2)"
    using that by (rule update_first_failure)
  show "update_object cv b st obj = (Some (Error err), st)"
    if "NestedSlice obj nestedPath = Inl err"
    using that by (rule update_object_path_error)
  show "update_object cv b st obj = (Some f, st)"
    if "NestedSlice obj nestedPath = Inr (Some containers)" "update_containers cv b containers = Inl f"
    using that by (rule update_object_container_failure)
  show "update_containers cv b (cs @ JObject u # cs'') = Inl (Error err)"
    if "update_containers cv b cs = Inr cs'" "FromUnstructured cv u = Inl err"
    using that by (rule update_containers_from_error)
  show "update_containers cv b (cs @ JObject u # cs'') = Inl (Error err)"
    if "update_containers cv b cs = Inr cs'" "FromUnstructured cv u = Inr c"
      "appendEnvFrom (EnvFrom c) (GetName (sbr b)) = Inr envList"
      "ToUnstructured cv (c\<lparr>EnvFrom := envList\<rparr>) = Inl err"
    using that by (rule update_containers_to_error)
  show "update_object cv b st obj = (Some (Error err), st')"
    if "NestedSlice obj nestedPath = Inr (Some containers)"
      "update_containers cv b containers = Inr containers'"
      "SetNestedSlice obj containers' nestedPath = Inr obj'"
      "clientUpdate (client b) st obj' = (Some err, st')"
    using that by (rule update_object_store_error)
  show "Bind U cv b st = (Some (Error err), st)" if "search U b st = Inl err"
    using that by (rule Bind_search_error)
  show "Bind U cv b st = update cv b st objList" if "search U b st = Inr objList"
    using that by (simp add: Bind_def)
qed

lemma NestedSlice_missing_key:
  "map_of obj field = None \<Longrightarrow> NestedSlice obj (field # flds) = Inr None"
  by (simp add: NestedSlice_def NestedFieldNoCopy_def)

text \<open>
  Claim C4. When the loop reaches an object in which the path
  \<open>spec.template.spec.containers\<close> is not found, \<open>update\<close> returns the error that
  carries the path and the kind of the object. The objects after it are not processed, and
  the store is in the state the objects before it left: no update is issued for the
  object.
\<close>

theorem update_missing_path:
  "update cv b st pre = (None, st') \<Longrightarrow> NestedSlice obj nestedPath = Inr None \<Longrightarrow>
   update cv b st (pre @ obj # rest)
     = (Some (Error (UnsupportedShape nestedPath (GetKind obj))), st')"
  by (simp add: update_append update_object_def)

lemma NestedSlice_workload:
  "NestedSlice (workload kind containers) nestedPath = Inr (Some containers)"
  by (simp add: NestedSlice_def NestedFieldNoCopy_def workload_def nestedPath_def)

lemma SetNestedSlice_workload:
  "SetNestedSlice (workload kind containers) containers' nestedPath = Inr (workload kind containers')"
  by (simp add: SetNestedSlice_def workload_def nestedPath_def)

lemma GetKind_workload: "GetKind (workload kind containers) = kind"
  by (simp add: GetKind_def workload_def)

lemma NestedSlice_shapeless: "NestedSlice shapeless nestedPath = Inr None"
  by (simp add: NestedSlice_def NestedFieldNoCopy_def shapeless_def nestedPath_def)

lemma update_containers_plain:
  "update_containers typedConverter \<lparr>client = c, sbr = request name kind\<rparr> [plainContainer]
     = Inr [boundContainer name]"
  by (simp add: typedConverter_def containerFromUnstructured_def containerToUnstructured_def
      stringField_def plainContainer_def boundContainer_def appendEnvFrom_def GetName_def request_def
      envFromToJson_def secretEnvFrom_def nameEntry_def)

lemma update_object_recorded:
  "kind \<noteq> rejected \<Longrightarrow>
   update_object typedConverter \<lparr>client = recording items rejected, sbr = request name k\<rparr> st
       (workload kind [plainContainer])
     = (None, st @ [workload kind [boundContainer name]])"
  by (simp only: update_object_def NestedSlice_workload sum.case option.case
      update_containers_plain SetNestedSlice_workload)
    (simp add: recording_def GetKind_workload)


lemma update_object_rejected:
  "update_object typedConverter \<lparr>client = recording items rejected, sbr = request name k\<rparr> st
       (workload rejected [plainContainer])
     = (Some (Error (External ''conflict'')), st)"
  by (simp only: update_object_def NestedSlice_workload sum.case option.case
      update_containers_plain SetNestedSlice_workload)
    (simp add: recording_def GetKind_workload)

theorem update_missing_path_witness:
  "update typedConverter
      \<lparr>client = recording [] ''none'', sbr = request ''service-binding-request'' ''deployment''\<rparr> []
      [workload ''Deployment'' [plainContainer], shapeless, workload ''Deployment'' [plainContainer]]
    = (Some (Error (UnsupportedShape [''spec'', ''template'', ''spec'', ''containers''] ''CronJob'')),
       [workload ''Deployment'' [boundContainer ''service-binding-request'']])"
proof -
  let ?b = "\<lparr>client = recording [] ''none'', sbr = request ''service-binding-request'' ''deployment''\<rparr>"
  have pre: "update typedConverter ?b [] [workload ''Deployment'' [plainContainer]]
      = (None, [workload ''Deployment'' [boundContainer ''service-binding-request'']])"
    by (simp add: update_object_recorded)
  have kind: "GetKind shapeless = ''CronJob''"
    by (simp add: GetKind_def shapeless_def)
  from update_missing_path [OF pre NestedSlice_shapeless, of "[workload ''Deployment'' [plainContainer]]"]
  show ?thesis by (simp add: kind nestedPath_def)
qed

theorem update_stops_at_first_error_witness:
  "update typedConverter
      \<lparr>client = recording [] ''DeploymentConfig'', sbr = request ''service-binding-request'' ''deployment''\<rparr> []
      [workload ''Deployment'' [plainContainer], workload ''DeploymentConfig'' [plainContainer],
       workload ''Deployment'' [plainContainer]]
    = (Some (Error (External ''conflict'')),
       [workload ''Deployment'' [boundContainer ''service-binding-request'']])
   \<and> Bind asciiOnly typedConverter
      \<lparr>client = recording [] ''DeploymentConfig'', sbr = request ''service-binding-request'' ''pod''\<rparr> []
    = (Some (Error (UnsupportedKind ''pod'')), [])"
proof -
  let ?b = "\<lparr>client = recording [] ''DeploymentConfig'', sbr = request ''service-binding-request'' ''deployment''\<rparr>"
  let ?p = "\<lparr>client = recording [] ''DeploymentConfig'', sbr = request ''service-binding-request'' ''pod''\<rparr>"
  have pre: "update typedConverter ?b [] [workload ''Deployment'' [plainContainer]]
      = (None, [workload ''Deployment'' [boundContainer ''service-binding-request'']])"
    by (simp add: update_object_recorded)
  have bad: "update_object typedConverter ?b [workload ''Deployment'' [boundContainer ''service-binding-request'']]
        (workload ''DeploymentConfig'' [plainContainer])
      = (Some (Error (External ''conflict'')), [workload ''Deployment'' [boundContainer ''service-binding-request'']])"
    by (rule update_object_rejected)
  have a: "update typedConverter ?b []
      [workload ''Deployment'' [plainContainer], workload ''DeploymentConfig'' [plainContainer],
       workload ''Deployment'' [plainContainer]]
    = (Some (Error (External ''conflict'')),
       [workload ''Deployment'' [boundContainer ''service-binding-request'']])"
    using update_stops_at_first_error [where cv = typedConverter and b = ?b and st = "[]"
        and pre = "[workload ''Deployment'' [plainContainer]]"
        and ?st1.0 = "[workload ''Deployment'' [boundContainer ''service-binding-request'']]"
        and obj = "workload ''DeploymentConfig'' [plainContainer]"
        and f = "Error (External ''conflict'')"
        and ?st2.0 = "[workload ''Deployment'' [boundContainer ''service-binding-request'']]"
        and rest = "[workload ''Deployment'' [plainContainer]]"] pre bad
    by simp
  have srch: "search asciiOnly ?p [] = Inl (UnsupportedKind ''pod'')"
    by (simp add: search_def getListGVK_def getResourceKind_def request_def Let_def lower_defs)
  have b: "Bind asciiOnly typedConverter ?p [] = (Some (Error (UnsupportedKind ''pod'')), [])"
    using update_stops_at_first_error [where cv = typedConverter and b = ?p and U = asciiOnly
        and st = "[]" and err = "UnsupportedKind ''pod''"] srch
    by simp
  from a b show ?thesis by blast
qed

lemma update_containers_bound:
  "update_containers cv b cs = Inr cs' \<Longrightarrow>
   list_all2 (bindsSecret cv (GetName (sbr b))) cs cs'"
proof (induction cs arbitrary: cs')
  case Nil
  then show ?case by simp
next
  case (Cons container cs)
  from Cons.prems obtain u c envList u' rest' where
    parts: "container = JObject u" "FromUnstructured cv u = Inr c"
      "appendEnvFrom (EnvFrom c) (GetName (sbr b)) = Inr envList"
      "ToUnstructured cv (c\<lparr>EnvFrom := envList\<rparr>) = Inr u'"
      "update_containers cv b cs = Inr rest'" "cs' = JObject u' # rest'"
    by (auto split: json.splits sum.splits)
  from appendEnvFrom_result [OF parts(3)]
  have "bindsSecret cv (GetName (sbr b)) container (JObject u')"
  proof
    assume "envList = EnvFrom c"
    with parts show ?thesis by (simp add: bindsSecret_def)
  next
    assume "envList = EnvFrom c @ [secretEnvFrom (GetName (sbr b))]"
    with parts show ?thesis by (simp add: bindsSecret_def)
  qed
  with Cons.IH [OF parts(5)] parts(6) show ?case by simp
qed

lemma update_containers_name:
  "GetName (sbr b1) = GetName (sbr b2) \<Longrightarrow>
   update_containers cv b1 cs = update_containers cv b2 cs"
  by (induction cs) (auto split: json.splits sum.splits)

lemma update_object_name:
  "GetName (sbr b1) = GetName (sbr b2) \<Longrightarrow> client b1 = client b2 \<Longrightarrow>
   update_object cv b1 st obj = update_object cv b2 st obj"
  by (simp add: update_object_def update_containers_name [of b1 b2]
      split: sum.splits option.splits prod.splits)

lemma update_name:
  "GetName (sbr b1) = GetName (sbr b2) \<Longrightarrow> client b1 = client b2 \<Longrightarrow>
   update cv b1 st objs = update cv b2 st objs"
  by (induction objs arbitrary: st)
    (simp_all add: update_object_name [of b1 b2] split: prod.splits option.splits)

lemma setNestedFieldNoCopy_read:
  "setNestedFieldNoCopy m val seen flds = Inr m' \<Longrightarrow>
   NestedFieldNoCopy_loop (JObject m') seen' flds = Inr (Some val)"
proof (induction m val seen flds arbitrary: m' seen' rule: setNestedFieldNoCopy.induct)
  case (1 m val seen)
  then show ?case by simp
next
  case (2 m val seen field)
  then show ?case by (auto simp: update_conv')
next
  case (3 m val seen field f2 rest)
  show ?case
  proof (cases "map_of m field")
    case None
    with "3.prems" obtain newVal where
      inner: "setNestedFieldNoCopy [] val (seen @ [field]) (f2 # rest) = Inr newVal" and
      m': "m' = AList.update field (JObject newVal) m"
      by (auto split: sum.splits)
    from "3.IH"(1) [OF None inner] m' show ?thesis by (simp add: update_conv')
  next
    case (Some v)
    show ?thesis
    proof (cases v)
      case (JObject valMap)
      with Some "3.prems" obtain valMap' where
        inner: "setNestedFieldNoCopy valMap val (seen @ [field]) (f2 # rest) = Inr valMap'" and
        m': "m' = AList.update field (JObject valMap') m"
        by (auto split: sum.splits)
      from "3.IH"(2) [OF Some JObject inner] m' show ?thesis by (simp add: update_conv')
    qed (use Some "3.prems" in simp_all)
  qed
qed

lemma SetNestedSlice_read:
  "SetNestedSlice obj containers flds = Inr obj' \<Longrightarrow> NestedSlice obj' flds = Inr (Some containers)"
  by (simp add: SetNestedSlice_def NestedSlice_def NestedFieldNoCopy_def
      setNestedFieldNoCopy_read [of obj "JArray containers" "[]" flds obj' "[]"])

text \<open>The body of the loop either fails before the store is called, or calls it once.\<close>

lemma update_object_cases:
  "(\<exists>f. update_object cv b st obj = (Some f, st))
   \<or> (\<exists>obj'. bindsObject cv (GetName (sbr b)) obj obj'
         \<and> update_object cv b st obj =
             (map_option Error (fst (clientUpdate (client b) st obj')),
              snd (clientUpdate (client b) st obj')))"
proof (cases "NestedSlice obj nestedPath")
  case (Inl err)
  then show ?thesis by (simp add: update_object_def)
next
  case (Inr found)
  show ?thesis
  proof (cases found)
    case None
    with Inr show ?thesis by (simp add: update_object_def)
  next
    case (Some containers)
    show ?thesis
    proof (cases "update_containers cv b containers")
      case (Inl f)
      with Inr Some show ?thesis by (simp add: update_object_def)
    next
      case bound: (Inr containers')
      show ?thesis
      proof (cases "SetNestedSlice obj containers' nestedPath")
        case (Inl f)
        with Inr Some bound show ?thesis by (simp add: update_object_def)
      next
        case set: (Inr obj')
        from update_containers_bound [OF bound] SetNestedSlice_read [OF set] Inr Some set
        have "bindsObject cv (GetName (sbr b)) obj obj'"
          by (simp add: bindsObject_def)
        moreover from Inr Some bound set
        have "update_object cv b st obj =
             (map_option Error (fst (clientUpdate (client b) st obj')),
              snd (clientUpdate (client b) st obj'))"
          by (simp add: update_object_def split: prod.splits option.splits)
        ultimately show ?thesis by blast
      qed
    qed
  qed
qed

lemma update_writes:
  "\<exists>written.
     list_all2 (bindsObject cv (GetName (sbr b))) (take (length written) objs) written
     \<and> snd (update cv b st objs) = foldl (\<lambda>s w. snd (clientUpdate (client b) s w)) st written
     \<and> (fst (update cv b st objs) = None \<longrightarrow> length written = length objs)"
proof (induction objs arbitrary: st)
  case Nil
  show ?case by (rule exI [of _ "[]"]) simp
next
  case (Cons obj objs)
  from update_object_cases [of cv b st obj] show ?case
  proof (elim disjE exE conjE)
    fix f
    assume "update_object cv b st obj = (Some f, st)"
    then show ?thesis by (intro exI [of _ "[]"]) simp
  next
    fix obj'
    assume bound: "bindsObject cv (GetName (sbr b)) obj obj'"
      and run: "update_object cv b st obj =
             (map_option Error (fst (clientUpdate (client b) st obj')),
              snd (clientUpdate (client b) st obj'))"
    obtain r st' where call: "clientUpdate (client b) st obj' = (r, st')"
      by (cases "clientUpdate (client b) st obj'")
    from run call have body: "update_object cv b st obj = (map_option Error r, st')"
      by simp
    from call have after: "snd (clientUpdate (client b) st obj') = st'"
      by simp
    show ?thesis
    proof (cases r)
      case (Some err)
      from body Some have "update cv b st (obj # objs) = (Some (Error err), st')"
        by simp
      with bound after show ?thesis
        by (intro exI [of _ "[obj']"]) simp
    next
      case None
      from body None have step: "update cv b st (obj # objs) = update cv b st' objs"
        by simp
      from Cons.IH [of st'] obtain written where
        ih1: "list_all2 (bindsObject cv (GetName (sbr b))) (take (length written) objs) written"
        and ih2: "snd (update cv b st' objs) = foldl (\<lambda>s w. snd (clientUpdate (client b) s w)) st' written"
        and ih3: "fst (update cv b st' objs) = None \<longrightarrow> length written = length objs"
        by (elim exE conjE)
      show ?thesis
      proof (intro exI [of _ "obj' # written"] conjI)
        show "list_all2 (bindsObject cv (GetName (sbr b)))
            (take (length (obj' # written)) (obj # objs)) (obj' # written)"
          using bound ih1 by simp
        show "snd (update cv b st (obj # objs)) =
            foldl (\<lambda>s w. snd (clientUpdate (client b) s w)) st (obj' # written)"
          unfolding step ih2 by (simp add: after)
        show "fst (update cv b st (obj # objs)) = None \<longrightarrow>
            length (obj' # written) = length (obj # objs)"
          unfolding step using ih3 by simp
      qed
    qed
  qed
qed


text \<open>
  Claim C8. The store is changed only by handing it objects, one for each workload in
  order up to the first failure, and each object handed over is the workload with every
  container replaced by the conversion of the container read, with nothing changed in
  \<open>EnvFrom\<close> or with one entry appended; that entry refers to the secret named by
  \<open>GetName\<close> of the request. When \<open>update\<close> returns no error, every workload was handed
  over so. No other field of the request has a part in it: two Binders on the same client
  whose requests have the same name run the same \<open>update\<close>.
\<close>

theorem update_injects_request_name:
  "(\<exists>written.
      list_all2 (bindsObject cv (GetName (sbr b))) (take (length written) objs) written
      \<and> snd (update cv b st objs) = foldl (\<lambda>s w. snd (clientUpdate (client b) s w)) st written
      \<and> (fst (update cv b st objs) = None \<longrightarrow> length written = length objs))
   \<and> (update_containers cv b cs = Inr cs' \<longrightarrow> list_all2 (bindsSecret cv (GetName (sbr b))) cs cs')
   \<and> (\<forall>secret. SecretRef (secretEnvFrom secret) = Some \<lparr>Name = secret, Optional = None\<rparr>)
   \<and> (GetName (sbr b) = GetName (sbr b') \<and> client b = client b'
        \<longrightarrow> update cv b st objs = update cv b' st objs)"
proof (intro conjI)
  show "\<exists>written.
      list_all2 (bindsObject cv (GetName (sbr b))) (take (length written) objs) written
      \<and> snd (update cv b st objs) = foldl (\<lambda>s w. snd (clientUpdate (client b) s w)) st written
      \<and> (fst (update cv b st objs) = None \<longrightarrow> length written = length objs)"
    by (rule update_writes)
  show "update_containers cv b cs = Inr cs' \<longrightarrow> list_all2 (bindsSecret cv (GetName (sbr b))) cs cs'"
    by (simp add: update_containers_bound)
  show "\<forall>secret. SecretRef (secretEnvFrom secret) = Some \<lparr>Name = secret, Optional = None\<rparr>"
    by (simp add: secretEnvFrom_def)
  show "GetName (sbr b) = GetName (sbr b') \<and> client b = client b'
        \<longrightarrow> update cv b st objs = update cv b' st objs"
    by (simp add: update_name [of b b'])
qed

lemma bindsObject_other_name:
  "\<not> bindsObject typedConverter ''service-binding-request''
       (workload ''Deployment'' [plainContainer]) (workload ''Deployment'' [boundContainer ''fixed-secret''])"
  by (simp add: bindsObject_def NestedSlice_workload bindsSecret_def plainContainer_def
      boundContainer_def typedConverter_def containerFromUnstructured_def containerToUnstructured_def
      stringField_def envFromToJson_def secretEnvFrom_def nameEntry_def)

theorem update_injects_request_name_witness:
  "update typedConverter
      \<lparr>client = recording [] ''none'', sbr = request ''service-binding-request'' ''deployment''\<rparr> []
      [workload ''Deployment'' [plainContainer]]
    = (None, [workload ''Deployment'' [boundContainer ''service-binding-request'']])
   \<and> bindsObject typedConverter ''service-binding-request''
        (workload ''Deployment'' [plainContainer])
        (workload ''Deployment'' [boundContainer ''service-binding-request''])
   \<and> list_all2 (bindsSecret typedConverter ''service-binding-request'')
        [plainContainer] [boundContainer ''service-binding-request'']
   \<and> update typedConverter
        \<lparr>client = recording [] ''none'', sbr = request ''service-binding-request'' ''deployment''\<rparr> []
        [workload ''Deployment'' [plainContainer]]
     = update typedConverter
        \<lparr>client = recording [] ''none'',
         sbr = (request ''service-binding-request'' ''deploymentconfig'')\<lparr>metaNamespace := ''other''\<rparr>\<rparr> []
        [workload ''Deployment'' [plainContainer]]"
proof -
  let ?b = "\<lparr>client = recording [] ''none'', sbr = request ''service-binding-request'' ''deployment''\<rparr>"
  let ?b' = "\<lparr>client = recording [] ''none'',
         sbr = (request ''service-binding-request'' ''deploymentconfig'')\<lparr>metaNamespace := ''other''\<rparr>\<rparr>"
  let ?w = "workload ''Deployment'' [plainContainer]"
  let ?w' = "workload ''Deployment'' [boundContainer ''service-binding-request'']"
  have result: "update typedConverter ?b [] [?w] = (None, [?w'])"
    by (simp add: update_object_recorded)
  have run: "update_containers typedConverter ?b [plainContainer]
      = Inr [boundContainer ''service-binding-request'']"
    by (rule update_containers_plain)
  have name: "GetName (sbr ?b) = ''service-binding-request''"
    by (simp add: GetName_def request_def)
  have same: "GetName (sbr ?b) = GetName (sbr ?b') \<and> client ?b = client ?b'"
    by (simp add: GetName_def request_def)
  note inst = update_injects_request_name [where cv = typedConverter and b = ?b and cs = "[plainContainer]"
      and cs' = "[boundContainer ''service-binding-request'']" and b' = ?b' and st = "[]"
      and objs = "[?w]"]
  from inst obtain written where
    bound: "list_all2 (bindsObject typedConverter (GetName (sbr ?b))) (take (length written) [?w]) written"
    and state: "snd (update typedConverter ?b [] [?w])
        = foldl (\<lambda>s w. snd (clientUpdate (client ?b) s w)) [] written"
    and all: "fst (update typedConverter ?b [] [?w]) = None \<longrightarrow> length written = length [?w]"
    by (elim conjE exE)
  from all result have "length written = 1" by simp
  then obtain x where written: "written = [x]"
    by (cases written) simp_all
  from state result written have "[?w'] = (if GetKind x = ''none'' then [] else [x])"
    by (simp add: recording_def)
  then have "x = ?w'" by (simp split: if_splits)
  with bound written name have handed: "bindsObject typedConverter ''service-binding-request'' ?w ?w'"
    by simp
  from inst run name same have rest:
    "list_all2 (bindsSecret typedConverter ''service-binding-request'')
        [plainContainer] [boundContainer ''service-binding-request'']
     \<and> update typedConverter ?b [] [?w] = update typedConverter ?b' [] [?w]"
    by simp
  from result handed rest show ?thesis by blast
qed

end
